theory Spec2Isabelle
  imports Complex_Main "HOL-Library.AList" "HOL-Library.Log_Nat"
begin

section \<open>Go values held in \<^verbatim>\<open>interface{}\<close>\<close>

text \<open>
  The parser works on \<^verbatim>\<open>map[string]interface{}\<close>.  A dynamic Go value is one of the
  shapes the code distinguishes by type assertion: \<^verbatim>\<open>nil\<close>, \<^verbatim>\<open>bool\<close>, \<^verbatim>\<open>int\<close>,
  \<^verbatim>\<open>float64\<close>, \<^verbatim>\<open>string\<close>, \<^verbatim>\<open>[]interface{}\<close> and \<^verbatim>\<open>map[string]interface{}\<close>.
  A \<^verbatim>\<open>float64\<close> is carried as the rational number it denotes (every finite
  \<^verbatim>\<open>float64\<close> is one; a JSON number is never NaN or infinite, and a negative zero
  is carried as zero).  A map is an
  association list read with \<open>map_of\<close>; a nil map and an empty map are both \<open>[]\<close>
  (the parser only reads maps, and reading a nil map finds nothing).
\<close>

datatype gval =
    GNil
  | GBool bool
  | GInt int
  | GFloat64 rat
  | GString string
  | GSlice "gval list"
  | GMap "(string \<times> gval) list"

type_synonym gmap = "(string \<times> gval) list"

text \<open>\<^verbatim>\<open>m[k]\<close>: the value stored under the key, \<^verbatim>\<open>nil\<close> when the key is absent.\<close>

definition index :: "gmap \<Rightarrow> string \<Rightarrow> gval" where
  "index m k = (case map_of m k of None \<Rightarrow> GNil | Some v \<Rightarrow> v)"

text \<open>The comma-ok type assertions \<^verbatim>\<open>v.(T)\<close> the code uses.\<close>

fun assert_string :: "gval \<Rightarrow> string option" where
  "assert_string (GString s) = Some s"
| "assert_string _ = None"

fun assert_bool :: "gval \<Rightarrow> bool option" where
  "assert_bool (GBool b) = Some b"
| "assert_bool _ = None"

fun assert_float64 :: "gval \<Rightarrow> rat option" where
  "assert_float64 (GFloat64 f) = Some f"
| "assert_float64 _ = None"

fun assert_slice :: "gval \<Rightarrow> gval list option" where
  "assert_slice (GSlice xs) = Some xs"
| "assert_slice _ = None"

fun assert_map :: "gval \<Rightarrow> gmap option" where
  "assert_map (GMap m) = Some m"
| "assert_map _ = None"

text \<open>
  The conversion \<^verbatim>\<open>int(v)\<close> of a \<^verbatim>\<open>float64\<close>: the fraction is discarded (truncation
  towards zero).  Go's \<^verbatim>\<open>int\<close> has 64 bits here; when the truncated value does not fit,
  the language leaves the result to the implementation, and the model takes the
  smallest \<^verbatim>\<open>int\<close>, which is what the amd64 conversion instruction yields.
\<close>

definition int_of_float64 :: "rat \<Rightarrow> int" where
  "int_of_float64 v =
     (let t = (if v < 0 then - \<lfloor>- v\<rfloor> else \<lfloor>v\<rfloor>)
      in if - (2 ^ 63) \<le> t \<and> t < 2 ^ 63 then t else - (2 ^ 63))"

section \<open>Errors (errors.go)\<close>

text \<open>
  \<open>Errorf\<close> is a plain error made by \<^verbatim>\<open>fmt.Errorf\<close> (or \<^verbatim>\<open>errors.New\<close>) with the
  given text; \<open>CLIConnectionError\<close> is the value \<^verbatim>\<open>NewCLIConnectionError\<close> builds.
\<close>

datatype error =
    Errorf string
  | CLIConnectionError string

section \<open>The typed message model (types.go)\<close>

text \<open>Constructor arguments follow the order of the struct fields.\<close>

datatype ContentBlock =
    TextBlock string
  | ThinkingBlock string string
  | ToolUseBlock string string gmap
  | ToolResultBlock string gval "bool option"

text \<open>
  \<^verbatim>\<open>UserMessage.Content\<close> is an \<^verbatim>\<open>interface{}\<close> that holds either a
  \<^verbatim>\<open>[]ContentBlock\<close> or whatever raw value the envelope carried.
\<close>

datatype UserContent =
    ContentBlocks "ContentBlock list"
  | ContentValue gval

record ResultMessage =
  Subtype :: string
  DurationMS :: int
  DurationAPIMS :: int
  IsError :: bool
  NumTurns :: int
  SessionID :: string
  TotalCostUSD :: "rat option"
  Usage :: "gmap option"
  Result :: "string option"

datatype Message =
    UserMessage UserContent
  | AssistantMessage "ContentBlock list" string
  | SystemMessage string gmap
  | ResultMessage ResultMessage

section \<open>The parser (parser.go)\<close>

definition parseContentBlock :: "gval \<Rightarrow> error + ContentBlock" where
  "parseContentBlock item =
     (case assert_map item of
        None \<Rightarrow> Inl (Errorf ''invalid content block format'')
      | Some blockData \<Rightarrow>
          (case assert_string (index blockData ''type'') of
             None \<Rightarrow> Inl (Errorf ''content block missing 'type' field'')
           | Some blockType \<Rightarrow>
               if blockType = ''text'' then
                 (case assert_string (index blockData ''text'') of
                    None \<Rightarrow> Inl (Errorf ''text block missing 'text' field'')
                  | Some text \<Rightarrow> Inr (TextBlock text))
               else if blockType = ''thinking'' then
                 (case assert_string (index blockData ''thinking'') of
                    None \<Rightarrow> Inl (Errorf ''thinking block missing 'thinking' field'')
                  | Some thinking \<Rightarrow>
                      (case assert_string (index blockData ''signature'') of
                         None \<Rightarrow> Inl (Errorf ''thinking block missing 'signature' field'')
                       | Some signature \<Rightarrow> Inr (ThinkingBlock thinking signature)))
               else if blockType = ''tool_use'' then
                 (case assert_string (index blockData ''id'') of
                    None \<Rightarrow> Inl (Errorf ''tool_use block missing 'id' field'')
                  | Some ident \<Rightarrow>
                      (case assert_string (index blockData ''name'') of
                         None \<Rightarrow> Inl (Errorf ''tool_use block missing 'name' field'')
                       | Some name \<Rightarrow>
                           (case assert_map (index blockData ''input'') of
                              None \<Rightarrow> Inl (Errorf ''tool_use block missing 'input' field'')
                            | Some input \<Rightarrow> Inr (ToolUseBlock ident name input))))
               else if blockType = ''tool_result'' then
                 (case assert_string (index blockData ''tool_use_id'') of
                    None \<Rightarrow> Inl (Errorf ''tool_result block missing 'tool_use_id' field'')
                  | Some toolUseID \<Rightarrow>
                      Inr (ToolResultBlock toolUseID
                             (index blockData ''content'')
                             (assert_bool (index blockData ''is_error''))))
               else Inl (Errorf (''unknown content block type: '' @ blockType))))"

text \<open>
  The loop \<^verbatim>\<open>for _, item := range contentList\<close> of \<^verbatim>\<open>parseUserMessage\<close> and
  \<^verbatim>\<open>parseAssistantMessage\<close>: blocks are appended in order, and the first block that
  fails ends the loop with its error.
\<close>

fun parseContentBlocks :: "gval list \<Rightarrow> error + ContentBlock list" where
  "parseContentBlocks [] = Inr []"
| "parseContentBlocks (item # rest) =
     (case parseContentBlock item of
        Inl err \<Rightarrow> Inl err
      | Inr block \<Rightarrow>
          (case parseContentBlocks rest of
             Inl err \<Rightarrow> Inl err
           | Inr blocks \<Rightarrow> Inr (block # blocks)))"

definition parseUserMessage :: "gmap \<Rightarrow> error + Message" where
  "parseUserMessage data =
     (case assert_map (index data ''message'') of
        None \<Rightarrow> Inl (Errorf ''missing 'message' field in user message'')
      | Some messageData \<Rightarrow>
          (let content = index messageData ''content'' in
           case assert_slice content of
             Some contentList \<Rightarrow>
               (case parseContentBlocks contentList of
                  Inl err \<Rightarrow> Inl err
                | Inr blocks \<Rightarrow> Inr (UserMessage (ContentBlocks blocks)))
           | None \<Rightarrow> Inr (UserMessage (ContentValue content))))"

definition parseAssistantMessage :: "gmap \<Rightarrow> error + Message" where
  "parseAssistantMessage data =
     (case assert_map (index data ''message'') of
        None \<Rightarrow> Inl (Errorf ''missing 'message' field in assistant message'')
      | Some messageData \<Rightarrow>
          (case assert_string (index messageData ''model'') of
             None \<Rightarrow> Inl (Errorf ''missing 'model' field in assistant message'')
           | Some model \<Rightarrow>
               (case assert_slice (index messageData ''content'') of
                  None \<Rightarrow>
                    Inl (Errorf ''missing or invalid 'content' field in assistant message'')
                | Some contentData \<Rightarrow>
                    (case parseContentBlocks contentData of
                       Inl err \<Rightarrow> Inl err
                     | Inr blocks \<Rightarrow> Inr (AssistantMessage blocks model)))))"

definition parseSystemMessage :: "gmap \<Rightarrow> error + Message" where
  "parseSystemMessage data =
     (case assert_string (index data ''subtype'') of
        None \<Rightarrow> Inl (Errorf ''missing 'subtype' field in system message'')
      | Some subtype \<Rightarrow> Inr (SystemMessage subtype data))"

text \<open>
  \<^verbatim>\<open>getInt\<close> returns \<^verbatim>\<open>(value, true)\<close> or \<^verbatim>\<open>(0, false)\<close>; the model returns
  \<open>Some value\<close> or \<open>None\<close>.
\<close>

definition getInt :: "gmap \<Rightarrow> string \<Rightarrow> int option" where
  "getInt data key =
     (case map_of data key of
        None \<Rightarrow> None
      | Some val \<Rightarrow>
          (case val of
             GInt v \<Rightarrow> Some v
           | GFloat64 v \<Rightarrow> Some (int_of_float64 v)
           | _ \<Rightarrow> None))"

definition parseResultMessage :: "gmap \<Rightarrow> error + Message" where
  "parseResultMessage data =
     (case assert_string (index data ''subtype'') of
        None \<Rightarrow> Inl (Errorf ''missing 'subtype' field in result message'')
      | Some subtype \<Rightarrow>
     (case getInt data ''duration_ms'' of
        None \<Rightarrow> Inl (Errorf ''missing 'duration_ms' field in result message'')
      | Some durationMS \<Rightarrow>
     (case getInt data ''duration_api_ms'' of
        None \<Rightarrow> Inl (Errorf ''missing 'duration_api_ms' field in result message'')
      | Some durationAPIMS \<Rightarrow>
     (case assert_bool (index data ''is_error'') of
        None \<Rightarrow> Inl (Errorf ''missing 'is_error' field in result message'')
      | Some isError \<Rightarrow>
     (case getInt data ''num_turns'' of
        None \<Rightarrow> Inl (Errorf ''missing 'num_turns' field in result message'')
      | Some numTurns \<Rightarrow>
     (case assert_string (index data ''session_id'') of
        None \<Rightarrow> Inl (Errorf ''missing 'session_id' field in result message'')
      | Some sessionID \<Rightarrow>
          Inr (ResultMessage
            \<lparr> Subtype = subtype,
              DurationMS = durationMS,
              DurationAPIMS = durationAPIMS,
              IsError = isError,
              NumTurns = numTurns,
              SessionID = sessionID,
              TotalCostUSD = assert_float64 (index data ''total_cost_usd''),
              Usage = assert_map (index data ''usage''),
              Result = assert_string (index data ''result'') \<rparr>)))))))"

definition ParseMessage :: "gmap \<Rightarrow> error + Message" where
  "ParseMessage data =
     (case assert_string (index data ''type'') of
        None \<Rightarrow> Inl (Errorf ''message missing 'type' field'')
      | Some messageType \<Rightarrow>
          if messageType = ''user'' then parseUserMessage data
          else if messageType = ''assistant'' then parseAssistantMessage data
          else if messageType = ''system'' then parseSystemMessage data
          else if messageType = ''result'' then parseResultMessage data
          else Inl (Errorf (''unknown message type: '' @ messageType)))"

section \<open>The wire envelope as a struct (types.go, \<^verbatim>\<open>MessageData\<close>)\<close>

text \<open>
  A nil map and a nil pointer are \<open>None\<close>; \<^verbatim>\<open>Content\<close> is an \<^verbatim>\<open>interface{}\<close>, nil when
  \<open>GNil\<close>.  The fields carry the prefix \<open>md\<close> to keep them apart from those of
  \<^verbatim>\<open>ResultMessage\<close>.
\<close>

record MessageData =
  mdType :: string
  mdMessage :: "gmap option"
  mdParentToolUseID :: "string option"
  mdSessionID :: string
  mdContent :: gval
  mdModel :: string
  mdSubtype :: string
  mdData :: "gmap option"
  mdDurationMS :: int
  mdDurationAPIMS :: int
  mdIsError :: bool
  mdNumTurns :: int
  mdTotalCostUSD :: "rat option"
  mdUsage :: "gmap option"
  mdResult :: "string option"

text \<open>The zero value \<^verbatim>\<open>MessageData{}\<close>.\<close>

definition zeroMessageData :: MessageData where
  "zeroMessageData =
     \<lparr> mdType = [], mdMessage = None, mdParentToolUseID = None, mdSessionID = [],
       mdContent = GNil, mdModel = [], mdSubtype = [], mdData = None,
       mdDurationMS = 0, mdDurationAPIMS = 0, mdIsError = False, mdNumTurns = 0,
       mdTotalCostUSD = None, mdUsage = None, mdResult = None \<rparr>"

subsection \<open>Decoded JSON and \<^verbatim>\<open>json.Unmarshal\<close>\<close>

text \<open>
  One JSON text, after the syntax has been read.  \<open>JInt\<close> is a number written without
  fraction and exponent, \<open>JFrac\<close> a number written with one of them (of the given
  value); the difference matters when the standard library stores a number in an
  \<^verbatim>\<open>int\<close> field.  Members of an object are kept in the order of the text.
\<close>

datatype json =
    JNull
  | JBool bool
  | JInt int
  | JFrac rat
  | JString string
  | JArray "json list"
  | JObject "(string \<times> json) list"

text \<open>
  \<^verbatim>\<open>strconv.ParseFloat(s, 64)\<close>, by which \<^verbatim>\<open>encoding/json\<close> turns the literal of a
  number into a \<^verbatim>\<open>float64\<close>, for a literal of value \<open>r\<close>: the \<^verbatim>\<open>float64\<close> nearest to
  \<open>r\<close>, the one with the even mantissa when two are equally near, and \<open>None\<close> (a range
  error) when rounding takes \<open>r\<close> beyond the largest \<^verbatim>\<open>float64\<close>.  \<open>pow2 k\<close> is the
  power of two with exponent \<open>k\<close>, and \<open>ilog2 a\<close> the exponent \<open>e\<close> with
  \<open>pow2 e \<le> a < pow2 (e + 1)\<close>.  A \<^verbatim>\<open>float64\<close> of that size is a multiple of
  \<open>pow2 (e - 52)\<close>, and of \<open>pow2 (- 1074)\<close> when \<open>e\<close> is below \<open>- 1022\<close>; every
  \<^verbatim>\<open>float64\<close> is below \<open>pow2 1024\<close>.  A literal too small for a \<^verbatim>\<open>float64\<close> gives
  zero and no error.
\<close>

definition pow2 :: "int \<Rightarrow> rat" where
  "pow2 k = (if 0 \<le> k then 2 ^ nat k else 1 / 2 ^ nat (- k))"

definition roundEven :: "rat \<Rightarrow> int" where
  "roundEven x =
     (let f = \<lfloor>x\<rfloor>; d = x - of_int f
      in if d < 1 / 2 then f else if 1 / 2 < d then f + 1 else if even f then f else f + 1)"

definition ilog2 :: "rat \<Rightarrow> int" where
  "ilog2 a =
     (let k = bitlen (fst (quotient_of a)) - bitlen (snd (quotient_of a))
      in if pow2 k \<le> a then k else k - 1)"

definition float64 :: "rat \<Rightarrow> rat option" where
  "float64 r =
     (if r = 0 then Some 0
      else
        (let a = \<bar>r\<bar>;
             e = ilog2 a;
             p = max e (- 1022) - 52;
             m = roundEven (a / pow2 p)
         in if 1024 \<le> e \<or> e = 1023 \<and> m = 2 ^ 53 then None
            else Some ((if r < 0 then - 1 else 1) * of_int m * pow2 p)))"

text \<open>
  What \<^verbatim>\<open>encoding/json\<close> stores for a value whose target is an \<^verbatim>\<open>interface{}\<close>:
  every number becomes a \<^verbatim>\<open>float64\<close>, an array a \<^verbatim>\<open>[]interface{}\<close>, an object a
  \<^verbatim>\<open>map[string]interface{}\<close>.  \<open>into_map m kvs\<close> assigns the members of an object one
  by one into the map \<open>m\<close>, so a repeated key keeps its last value.  The result is
  \<open>None\<close> when a number inside is out of range, which makes \<^verbatim>\<open>json.Unmarshal\<close> return
  an error.
\<close>

fun to_gval :: "json \<Rightarrow> gval option"
  and to_gvals :: "json list \<Rightarrow> gval list option"
  and into_map :: "gmap \<Rightarrow> (string \<times> json) list \<Rightarrow> gmap option" where
  "to_gval JNull = Some GNil"
| "to_gval (JBool b) = Some (GBool b)"
| "to_gval (JInt i) = map_option GFloat64 (float64 (of_int i))"
| "to_gval (JFrac r) = map_option GFloat64 (float64 r)"
| "to_gval (JString s) = Some (GString s)"
| "to_gval (JArray xs) = map_option GSlice (to_gvals xs)"
| "to_gval (JObject kvs) = map_option GMap (into_map [] kvs)"
| "to_gvals [] = Some []"
| "to_gvals (x # xs) =
     (case to_gval x of
        None \<Rightarrow> None
      | Some v \<Rightarrow> map_option ((#) v) (to_gvals xs))"
| "into_map m [] = Some m"
| "into_map m ((k, v) # kvs) =
     (case to_gval v of
        None \<Rightarrow> None
      | Some x \<Rightarrow> into_map (AList.update k x m) kvs)"

text \<open>
  The name under which \<^verbatim>\<open>encoding/json\<close> looks up a key of an object among the
  fields of a struct when no tag is equal to it: the key and the tags are compared
  after folding.  Folding puts the letters of ASCII into upper case and replaces the
  two other characters that fold to a letter of ASCII, U+017F and U+212A (in UTF-8),
  by \<^verbatim>\<open>S\<close> and \<^verbatim>\<open>K\<close>.  Any other byte above ASCII is kept as it is here: it folds to
  something that is not ASCII, so a key that holds one matches none of the tags, which
  are all ASCII.
\<close>

definition upperASCII :: "char \<Rightarrow> char" where
  "upperASCII c =
     (case map_of (zip ''abcdefghijklmnopqrstuvwxyz'' ''ABCDEFGHIJKLMNOPQRSTUVWXYZ'') c of
        Some u \<Rightarrow> u
      | None \<Rightarrow> c)"

fun foldName :: "string \<Rightarrow> string" where
  "foldName (a # b # c # s) =
     (if a = CHR 0xE2 \<and> b = CHR 0x84 \<and> c = CHR 0xAA then CHR ''K'' # foldName s
      else if a = CHR 0xC5 \<and> b = CHR 0xBF then CHR ''S'' # foldName (c # s)
      else upperASCII a # foldName (b # c # s))"
| "foldName [a, b] =
     (if a = CHR 0xC5 \<and> b = CHR 0xBF then [CHR ''S''] else upperASCII a # foldName [b])"
| "foldName [a] = [upperASCII a]"
| "foldName [] = []"

text \<open>
  One member of the top-level object stored into the struct, by the field's
  \<^verbatim>\<open>json\<close> tag: \<open>None\<close> when the value does not fit the field's type
  (\<^verbatim>\<open>UnmarshalTypeError\<close>, which makes \<^verbatim>\<open>json.Unmarshal\<close> return an error).
  \<^verbatim>\<open>null\<close> leaves a string, number or bool field alone and sets a map, pointer or
  interface field to nil; a key that matches no tag is skipped.  No two tags of
  \<^verbatim>\<open>MessageData\<close> fold to the same name, so a key matches at most one field.
\<close>

definition set_string :: "json \<Rightarrow> string \<Rightarrow> string option" where
  "set_string v old =
     (case v of JString s \<Rightarrow> Some s | JNull \<Rightarrow> Some old | _ \<Rightarrow> None)"

definition set_int :: "json \<Rightarrow> int \<Rightarrow> int option" where
  "set_int v old =
     (case v of
        JInt i \<Rightarrow> if - (2 ^ 63) \<le> i \<and> i < 2 ^ 63 then Some i else None
      | JNull \<Rightarrow> Some old
      | _ \<Rightarrow> None)"

definition set_bool :: "json \<Rightarrow> bool \<Rightarrow> bool option" where
  "set_bool v old =
     (case v of JBool b \<Rightarrow> Some b | JNull \<Rightarrow> Some old | _ \<Rightarrow> None)"

definition set_string_ptr :: "json \<Rightarrow> string option option" where
  "set_string_ptr v =
     (case v of JString s \<Rightarrow> Some (Some s) | JNull \<Rightarrow> Some None | _ \<Rightarrow> None)"

definition set_float64_ptr :: "json \<Rightarrow> rat option option" where
  "set_float64_ptr v =
     (case v of
        JInt i \<Rightarrow> map_option Some (float64 (of_int i))
      | JFrac r \<Rightarrow> map_option Some (float64 r)
      | JNull \<Rightarrow> Some None
      | _ \<Rightarrow> None)"

definition set_map :: "json \<Rightarrow> gmap option \<Rightarrow> gmap option option" where
  "set_map v old =
     (case v of
        JObject kvs \<Rightarrow>
          map_option Some (into_map (case old of None \<Rightarrow> [] | Some m \<Rightarrow> m) kvs)
      | JNull \<Rightarrow> Some None
      | _ \<Rightarrow> None)"

definition setField :: "MessageData \<Rightarrow> string \<times> json \<Rightarrow> MessageData option" where
  "setField d kv =
     (let k = foldName (fst kv); v = snd kv in
      if k = foldName ''type'' then
        map_option (\<lambda>x. d\<lparr>mdType := x\<rparr>) (set_string v (mdType d))
      else if k = foldName ''message'' then
        map_option (\<lambda>x. d\<lparr>mdMessage := x\<rparr>) (set_map v (mdMessage d))
      else if k = foldName ''parent_tool_use_id'' then
        map_option (\<lambda>x. d\<lparr>mdParentToolUseID := x\<rparr>) (set_string_ptr v)
      else if k = foldName ''session_id'' then
        map_option (\<lambda>x. d\<lparr>mdSessionID := x\<rparr>) (set_string v (mdSessionID d))
      else if k = foldName ''content'' then
        map_option (\<lambda>x. d\<lparr>mdContent := x\<rparr>) (to_gval v)
      else if k = foldName ''model'' then
        map_option (\<lambda>x. d\<lparr>mdModel := x\<rparr>) (set_string v (mdModel d))
      else if k = foldName ''subtype'' then
        map_option (\<lambda>x. d\<lparr>mdSubtype := x\<rparr>) (set_string v (mdSubtype d))
      else if k = foldName ''data'' then
        map_option (\<lambda>x. d\<lparr>mdData := x\<rparr>) (set_map v (mdData d))
      else if k = foldName ''duration_ms'' then
        map_option (\<lambda>x. d\<lparr>mdDurationMS := x\<rparr>) (set_int v (mdDurationMS d))
      else if k = foldName ''duration_api_ms'' then
        map_option (\<lambda>x. d\<lparr>mdDurationAPIMS := x\<rparr>) (set_int v (mdDurationAPIMS d))
      else if k = foldName ''is_error'' then
        map_option (\<lambda>x. d\<lparr>mdIsError := x\<rparr>) (set_bool v (mdIsError d))
      else if k = foldName ''num_turns'' then
        map_option (\<lambda>x. d\<lparr>mdNumTurns := x\<rparr>) (set_int v (mdNumTurns d))
      else if k = foldName ''total_cost_usd'' then
        map_option (\<lambda>x. d\<lparr>mdTotalCostUSD := x\<rparr>) (set_float64_ptr v)
      else if k = foldName ''usage'' then
        map_option (\<lambda>x. d\<lparr>mdUsage := x\<rparr>) (set_map v (mdUsage d))
      else if k = foldName ''result'' then
        map_option (\<lambda>x. d\<lparr>mdResult := x\<rparr>) (set_string_ptr v)
      else Some d)"

fun setFields :: "MessageData \<Rightarrow> (string \<times> json) list \<Rightarrow> MessageData option" where
  "setFields d [] = Some d"
| "setFields d (kv # kvs) =
     (case setField d kv of None \<Rightarrow> None | Some d' \<Rightarrow> setFields d' kvs)"

text \<open>
  \<^verbatim>\<open>var data MessageData; json.Unmarshal(text, &data)\<close> on a text of valid syntax:
  \<open>Some data\<close> when it returns no error.  A top-level \<^verbatim>\<open>null\<close> stores nothing and is
  no error; any other value that is not an object is one.
\<close>

definition unmarshalMessageData :: "json \<Rightarrow> MessageData option" where
  "unmarshalMessageData j =
     (case j of
        JObject kvs \<Rightarrow> setFields zeroMessageData kvs
      | JNull \<Rightarrow> Some zeroMessageData
      | _ \<Rightarrow> None)"

text \<open>
  \<^verbatim>\<open>var data map[string]interface{}; json.Unmarshal(text, &data)\<close>, as
  \<^verbatim>\<open>ParseMessageFromJSON\<close> calls it: \<^verbatim>\<open>null\<close> leaves the map nil.
\<close>

definition unmarshalMap :: "json \<Rightarrow> gmap option" where
  "unmarshalMap j =
     (case j of
        JObject kvs \<Rightarrow> into_map [] kvs
      | JNull \<Rightarrow> Some []
      | _ \<Rightarrow> None)"

text \<open>
  \<^verbatim>\<open>ParseMessageFromJSON\<close>.  The text has been read into \<open>Some j\<close>, or is not JSON
  (\<open>None\<close>).  When \<^verbatim>\<open>json.Unmarshal\<close> fails, the error of the source wraps the
  library's error, and its text goes on, after a colon, with the text of that error;
  the model keeps the part before the colon only.
\<close>

definition ParseMessageFromJSON :: "json option \<Rightarrow> error + Message" where
  "ParseMessageFromJSON jsonData =
     (case Option.bind jsonData unmarshalMap of
        None \<Rightarrow> Inl (Errorf ''failed to parse JSON'')
      | Some data \<Rightarrow> ParseMessage data)"

subsection \<open>Between struct and map (client.go)\<close>

text \<open>
  The two shapes of the assignments in \<^verbatim>\<open>messageDataToMap\<close>:
  \<^verbatim>\<open>if cond { result[k] = v }\<close>, and \<^verbatim>\<open>if p != nil { result[k] = *p }\<close> for a pointer
  or a map \<open>p\<close>.
\<close>

definition setIf :: "bool \<Rightarrow> string \<Rightarrow> gval \<Rightarrow> gmap \<Rightarrow> gmap" where
  "setIf cond k v result = (if cond then AList.update k v result else result)"

definition setNotNil :: "string \<Rightarrow> gval option \<Rightarrow> gmap \<Rightarrow> gmap" where
  "setNotNil k p result = (case p of Some v \<Rightarrow> AList.update k v result | None \<Rightarrow> result)"

definition messageDataToMap :: "MessageData \<Rightarrow> gmap" where
  "messageDataToMap data =
     (let result = [];
          result = AList.update ''type'' (GString (mdType data)) result;
          result = setNotNil ''message'' (map_option GMap (mdMessage data)) result;
          result = setNotNil ''parent_tool_use_id''
                     (map_option GString (mdParentToolUseID data)) result;
          result = setIf (mdSessionID data \<noteq> []) ''session_id''
                     (GString (mdSessionID data)) result;
          result = setIf (mdContent data \<noteq> GNil) ''content'' (mdContent data) result;
          result = setIf (mdModel data \<noteq> []) ''model'' (GString (mdModel data)) result;
          result = setIf (mdSubtype data \<noteq> []) ''subtype'' (GString (mdSubtype data)) result;
          result = setNotNil ''data'' (map_option GMap (mdData data)) result;
          result = setIf (mdDurationMS data > 0) ''duration_ms''
                     (GInt (mdDurationMS data)) result;
          result = setIf (mdDurationAPIMS data > 0) ''duration_api_ms''
                     (GInt (mdDurationAPIMS data)) result;
          result = AList.update ''is_error'' (GBool (mdIsError data)) result;
          result = setIf (mdNumTurns data > 0) ''num_turns'' (GInt (mdNumTurns data)) result;
          result = setNotNil ''total_cost_usd''
                     (map_option GFloat64 (mdTotalCostUSD data)) result;
          result = setNotNil ''usage'' (map_option GMap (mdUsage data)) result;
          result = setNotNil ''result'' (map_option GString (mdResult data)) result
      in result)"

text \<open>
  \<^verbatim>\<open>mapToMessageData\<close>.  The assertion \<^verbatim>\<open>v.(map[string]interface{})\<close> on the
  \<^verbatim>\<open>message\<close> entry has no comma-ok form: it panics when the key is present with a
  value that is not a map, which is \<open>None\<close> here.
\<close>

definition mapToMessageData :: "gmap \<Rightarrow> MessageData option" where
  "mapToMessageData m =
     (let data = zeroMessageData;
          data = (case assert_string (index m ''type'') of
                    Some v \<Rightarrow> data\<lparr>mdType := v\<rparr> | None \<Rightarrow> data)
      in case (case map_of m ''message'' of
                 None \<Rightarrow> Some data
               | Some v \<Rightarrow> map_option (\<lambda>x. data\<lparr>mdMessage := Some x\<rparr>) (assert_map v)) of
           None \<Rightarrow> None
         | Some data \<Rightarrow>
            (let data = (case assert_string (index m ''parent_tool_use_id'') of
                           Some v \<Rightarrow> data\<lparr>mdParentToolUseID := Some v\<rparr> | None \<Rightarrow> data);
                 data = (case assert_string (index m ''session_id'') of
                           Some v \<Rightarrow> data\<lparr>mdSessionID := v\<rparr> | None \<Rightarrow> data);
                 data = (case map_of m ''content'' of
                           Some v \<Rightarrow> data\<lparr>mdContent := v\<rparr> | None \<Rightarrow> data);
                 data = (case assert_string (index m ''model'') of
                           Some v \<Rightarrow> data\<lparr>mdModel := v\<rparr> | None \<Rightarrow> data);
                 data = (case assert_string (index m ''subtype'') of
                           Some v \<Rightarrow> data\<lparr>mdSubtype := v\<rparr> | None \<Rightarrow> data);
                 data = (case assert_map (index m ''data'') of
                           Some v \<Rightarrow> data\<lparr>mdData := Some v\<rparr> | None \<Rightarrow> data);
                 data = (case index m ''duration_ms'' of
                           GInt v \<Rightarrow> data\<lparr>mdDurationMS := v\<rparr> | _ \<Rightarrow> data);
                 data = (case index m ''duration_api_ms'' of
                           GInt v \<Rightarrow> data\<lparr>mdDurationAPIMS := v\<rparr> | _ \<Rightarrow> data);
                 data = (case assert_bool (index m ''is_error'') of
                           Some v \<Rightarrow> data\<lparr>mdIsError := v\<rparr> | None \<Rightarrow> data);
                 data = (case index m ''num_turns'' of
                           GInt v \<Rightarrow> data\<lparr>mdNumTurns := v\<rparr> | _ \<Rightarrow> data);
                 data = (case assert_float64 (index m ''total_cost_usd'') of
                           Some v \<Rightarrow> data\<lparr>mdTotalCostUSD := Some v\<rparr> | None \<Rightarrow> data);
                 data = (case assert_map (index m ''usage'') of
                           Some v \<Rightarrow> data\<lparr>mdUsage := Some v\<rparr> | None \<Rightarrow> data);
                 data = (case assert_string (index m ''result'') of
                           Some v \<Rightarrow> data\<lparr>mdResult := Some v\<rparr> | None \<Rightarrow> data)
             in Some data))"

section \<open>Cancellation\<close>

text \<open>
  The loops of the client select on \<^verbatim>\<open>ctx.Done()\<close>.  A context is \<open>None\<close> when it is
  never cancelled, and \<open>Some n\<close> when the loop passes \<open>n\<close> selects before one of them
  takes the \<^verbatim>\<open>ctx.Done()\<close> case.
\<close>

type_synonym ctx = "nat option"

definition ctxDone :: "ctx \<Rightarrow> bool" where
  "ctxDone c = (c = Some 0)"

definition tick :: "ctx \<Rightarrow> ctx" where
  "tick c = map_option (\<lambda>n. n - 1) c"

section \<open>The subprocess transport (transport.go)\<close>

definition maxBufferSize :: nat where
  "maxBufferSize = 1024 * 1024"

subsection \<open>Reading the child's output\<close>

text \<open>
  \<^verbatim>\<open>strings.TrimSpace\<close> cuts the white space at both ends of a string, on the left
  first.  White space is what \<^verbatim>\<open>unicode.IsSpace\<close> accepts: the six characters of ASCII
  (tab, line feed, vertical tab, form feed, carriage return, space), and in UTF-8 the
  two-byte characters U+0085 and U+00A0 and the three-byte characters U+1680, U+2000
  to U+200A, U+2028, U+2029, U+202F, U+205F and U+3000.  A byte that does not begin
  one of these is not white space, whether or not it is valid UTF-8.
\<close>

definition isSpace :: "char \<Rightarrow> bool" where
  "isSpace c = (c \<in> set [CHR 0x09, CHR 0x0A, CHR 0x0B, CHR 0x0C, CHR 0x0D, CHR 0x20])"

definition isSpace2 :: "char \<Rightarrow> char \<Rightarrow> bool" where
  "isSpace2 a b = (a = CHR 0xC2 \<and> b \<in> set [CHR 0x85, CHR 0xA0])"

definition isSpace3 :: "char \<Rightarrow> char \<Rightarrow> char \<Rightarrow> bool" where
  "isSpace3 a b c =
     (a = CHR 0xE1 \<and> b = CHR 0x9A \<and> c = CHR 0x80
      \<or> a = CHR 0xE2 \<and> b = CHR 0x80 \<and>
          c \<in> set [CHR 0x80, CHR 0x81, CHR 0x82, CHR 0x83, CHR 0x84, CHR 0x85, CHR 0x86,
                   CHR 0x87, CHR 0x88, CHR 0x89, CHR 0x8A, CHR 0xA8, CHR 0xA9, CHR 0xAF]
      \<or> a = CHR 0xE2 \<and> b = CHR 0x81 \<and> c = CHR 0x9F
      \<or> a = CHR 0xE3 \<and> b = CHR 0x80 \<and> c = CHR 0x80)"

fun TrimLeft :: "string \<Rightarrow> string" where
  "TrimLeft (a # b # c # s) =
     (if isSpace a then TrimLeft (b # c # s)
      else if isSpace2 a b then TrimLeft (c # s)
      else if isSpace3 a b c then TrimLeft s
      else a # b # c # s)"
| "TrimLeft [a, b] =
     (if isSpace a then TrimLeft [b] else if isSpace2 a b then [] else [a, b])"
| "TrimLeft [a] = (if isSpace a then [] else [a])"
| "TrimLeft [] = []"

text \<open>The same from the right; the string is given, and returned, last byte first.\<close>

fun TrimRight :: "string \<Rightarrow> string" where
  "TrimRight (c # b # a # s) =
     (if isSpace c then TrimRight (b # a # s)
      else if isSpace2 b c then TrimRight (a # s)
      else if isSpace3 a b c then TrimRight s
      else c # b # a # s)"
| "TrimRight [c, b] =
     (if isSpace c then TrimRight [b] else if isSpace2 b c then [] else [c, b])"
| "TrimRight [c] = (if isSpace c then [] else [c])"
| "TrimRight [] = []"

definition TrimSpace :: "string \<Rightarrow> string" where
  "TrimSpace s = rev (TrimRight (rev (TrimLeft s)))"

text \<open>
  \<^verbatim>\<open>bufio.Scanner\<close> with the buffer \<^verbatim>\<open>scanner.Buffer(make([]byte, maxBufferSize),
  maxBufferSize)\<close> over the lines of the output: \<^verbatim>\<open>Scan\<close> yields the lines in turn and
  stops, with \<^verbatim>\<open>ErrTooLong\<close>, at the first line that fills the buffer before its end
  is seen.  The result is the lines scanned and what \<^verbatim>\<open>scanner.Err()\<close> returns.
\<close>

fun scanLines :: "string list \<Rightarrow> string list \<times> error option" where
  "scanLines [] = ([], None)"
| "scanLines (l # ls) =
     (if length l \<ge> maxBufferSize
      then ([], Some (Errorf ''bufio.Scanner: token too long''))
      else (case scanLines ls of (out, e) \<Rightarrow> (l # out, e)))"

text \<open>
  The state of the goroutine \<^verbatim>\<open>readMessages\<close>: its local \<^verbatim>\<open>jsonBuffer\<close>, what it has
  sent on \<^verbatim>\<open>t.msgChan\<close>, and what \<^verbatim>\<open>t.errChan\<close> holds.  \<^verbatim>\<open>t.errChan\<close> is made with
  capacity 1 and nothing in the package receives from it, so a send on it succeeds
  while it is empty and never returns once it is full: \<open>blocked\<close>.  A send on
  \<^verbatim>\<open>t.msgChan\<close> waits for the consumer and then succeeds (\<^verbatim>\<open>t.doneChan\<close>, the other
  case of that select, is closed only when \<^verbatim>\<open>readMessages\<close> itself returns).
  \<open>closed\<close> records the deferred \<^verbatim>\<open>close(t.msgChan)\<close>.
\<close>

record reader =
  jsonBuffer :: string
  msgChan :: "MessageData list"
  errChan :: "error list"
  blocked :: bool
  closed :: bool

definition newReader :: reader where
  "newReader = \<lparr> jsonBuffer = [], msgChan = [], errChan = [], blocked = False, closed = False \<rparr>"

definition sendErr :: "error \<Rightarrow> reader \<Rightarrow> reader" where
  "sendErr e r =
     (if blocked r then r
      else if length (errChan r) < 1 then r\<lparr>errChan := errChan r @ [e]\<rparr>
      else r\<lparr>blocked := True\<rparr>)"

text \<open>
  \<^verbatim>\<open>json.Unmarshal([]byte(jsonBuffer), &data)\<close>: \<open>parse\<close> reads the syntax of a text
  (\<open>None\<close> when the text is not one JSON value).
\<close>

definition jsonUnmarshal :: "(string \<Rightarrow> json option) \<Rightarrow> string \<Rightarrow> MessageData option" where
  "jsonUnmarshal parse text = Option.bind (parse text) unmarshalMessageData"

text \<open>One pass of the body of \<^verbatim>\<open>for scanner.Scan()\<close>.\<close>

definition readLine :: "(string \<Rightarrow> json option) \<Rightarrow> reader \<Rightarrow> string \<Rightarrow> reader" where
  "readLine parse r text =
     (let line = TrimSpace text in
      if line = [] then r
      else
        (let r = r\<lparr>jsonBuffer := jsonBuffer r @ line\<rparr> in
         if length (jsonBuffer r) > maxBufferSize then
           (let r = sendErr (Errorf ''JSON message exceeded maximum buffer size'') r
            in if blocked r then r else r\<lparr>jsonBuffer := []\<rparr>)
         else
           (case jsonUnmarshal parse (jsonBuffer r) of
              Some data \<Rightarrow>
                (let r = r\<lparr>jsonBuffer := []\<rparr> in
                 if mdType data = ''control_response'' then r
                 else r\<lparr>msgChan := msgChan r @ [data]\<rparr>)
            | None \<Rightarrow> r)))"

fun readLines :: "(string \<Rightarrow> json option) \<Rightarrow> reader \<Rightarrow> string list \<Rightarrow> reader" where
  "readLines parse r [] = r"
| "readLines parse r (text # rest) =
     (if blocked r then r else readLines parse (readLine parse r text) rest)"

text \<open>
  \<^verbatim>\<open>readMessages\<close> over the whole output of the child.  \<open>exit\<close> is what
  \<^verbatim>\<open>t.cmd.Wait()\<close> returns: \<open>None\<close>, or the error together with the text read back
  from the stderr file.
\<close>

definition readMessages ::
  "(string \<Rightarrow> json option) \<Rightarrow> string list \<Rightarrow> (error \<times> string) option \<Rightarrow> reader" where
  "readMessages parse output exit =
     (case scanLines output of (lines, scanErr) \<Rightarrow>
        (let r = readLines parse newReader lines;
             r = (case scanErr of Some err \<Rightarrow> sendErr err r | None \<Rightarrow> r);
             r = (case exit of
                    None \<Rightarrow> r
                  | Some (err, stderr) \<Rightarrow>
                      if stderr \<noteq> [] then sendErr (Errorf (''command failed: '' @ stderr)) r
                      else sendErr err r)
         in if blocked r then r else r\<lparr>closed := True\<rparr>))"

subsection \<open>The transport's state and operations\<close>

text \<open>
  What a caller passes as \<^verbatim>\<open>prompt interface{}\<close>: nil, a string, a channel of maps
  (with the maps sent on it, and whether it is closed after them), a receive-only
  channel, a slice of maps, or a value of some other type (with the name \<^verbatim>\<open>%T\<close>
  prints).
\<close>

datatype prompt =
    PNil
  | PString string
  | PChan "gmap list" bool
  | PRecvChan "gmap list" bool
  | PSlice "gmap list"
  | POther string

fun typeName :: "prompt \<Rightarrow> string" where
  "typeName PNil = ''<nil>''"
| "typeName (PString _) = ''string''"
| "typeName (PChan _ _) = ''chan map[string]interface {}''"
| "typeName (PRecvChan _ _) = ''<-chan map[string]interface {}''"
| "typeName (PSlice _) = ''[]map[string]interface {}''"
| "typeName (POther n) = n"

text \<open>
  The fields of \<^verbatim>\<open>SubprocessCLITransport\<close> the operations below read and write.
  \<open>stdin\<close>, \<open>cmd\<close> and \<open>stderrFile\<close> say that the field is not nil, \<open>cmdProcess\<close> that
  \<^verbatim>\<open>t.cmd.Process\<close> is not nil.
\<close>

record SubprocessCLITransport =
  isStreaming :: bool
  closeStdinAfterPrompt :: bool
  stdin :: bool
  cmd :: bool
  cmdProcess :: bool
  stderrFile :: bool
  t_connected :: bool

text \<open>What an operation does to the child process and its files, in order.\<close>

datatype effect =
    StdinClose
  | ProcessKill
  | ProcessWait
  | StderrClose
  | StderrRemove
  | StdinWrite string

text \<open>
  What the operating system answers when a transport is made and connected:
  the result of \<^verbatim>\<open>findCLI\<close>, and for \<^verbatim>\<open>os.CreateTemp\<close>, \<^verbatim>\<open>StdinPipe\<close>,
  \<^verbatim>\<open>StdoutPipe\<close> and \<^verbatim>\<open>Start\<close> the text of the error, \<open>None\<close> when the call succeeds.
\<close>

record spawn =
  findCLI :: "error + string"
  createTemp :: "string option"
  stdinPipe :: "string option"
  stdoutPipe :: "string option"
  start :: "string option"

definition NewSubprocessCLITransport ::
  "spawn \<Rightarrow> prompt \<Rightarrow> string \<Rightarrow> bool \<Rightarrow> error + SubprocessCLITransport" where
  "NewSubprocessCLITransport env p cliPath closeStdin =
     (let t = \<lparr> isStreaming = False, closeStdinAfterPrompt = closeStdin, stdin = False,
                 cmd = False, cmdProcess = False, stderrFile = False, t_connected = False \<rparr>
      in case (case p of
                 PString _ \<Rightarrow> Inr (t\<lparr>isStreaming := False\<rparr>)
               | PChan _ _ \<Rightarrow> Inr (t\<lparr>isStreaming := True\<rparr>)
               | PRecvChan _ _ \<Rightarrow> Inr (t\<lparr>isStreaming := True\<rparr>)
               | _ \<Rightarrow> Inl (Errorf (''unsupported prompt type: '' @ typeName p))) of
           Inl err \<Rightarrow> Inl err
         | Inr t \<Rightarrow>
             if cliPath = [] then (case findCLI env of Inl err \<Rightarrow> Inl err | Inr path \<Rightarrow> Inr t)
             else Inr t)"

definition Connect :: "spawn \<Rightarrow> SubprocessCLITransport \<Rightarrow> error option \<times> SubprocessCLITransport" where
  "Connect env t =
     (if t_connected t then (None, t)
      else case createTemp env of
        Some e \<Rightarrow> (Some (Errorf (''failed to create stderr file: '' @ e)), t)
      | None \<Rightarrow>
         (let t = t\<lparr>stderrFile := True, cmd := True\<rparr> in
          case (if isStreaming t then stdinPipe env else None) of
            Some e \<Rightarrow> (Some (Errorf (''failed to create stdin pipe: '' @ e)), t)
          | None \<Rightarrow>
             (let t = (if isStreaming t then t\<lparr>stdin := True\<rparr> else t) in
              case stdoutPipe env of
                Some e \<Rightarrow> (Some (Errorf (''failed to create stdout pipe: '' @ e)), t)
              | None \<Rightarrow>
                 (case start env of
                    Some e \<Rightarrow> (Some (Errorf (''failed to start Claude Code: '' @ e)), t)
                  | None \<Rightarrow> (None, t\<lparr>cmdProcess := True, t_connected := True\<rparr>)))))"

text \<open>
  \<^verbatim>\<open>Disconnect\<close>: the error it returns, the state it leaves, and what it did.  The
  results of \<^verbatim>\<open>Close\<close>, \<^verbatim>\<open>Kill\<close>, \<^verbatim>\<open>Wait\<close> and \<^verbatim>\<open>os.Remove\<close> are dropped by the code.
\<close>

definition Disconnect ::
  "SubprocessCLITransport \<Rightarrow> error option \<times> SubprocessCLITransport \<times> effect list" where
  "Disconnect t =
     (if \<not> t_connected t then (None, t, [])
      else
        (let (t, e1) = (if stdin t then (t\<lparr>stdin := False\<rparr>, [StdinClose]) else (t, []));
             e2 = (if cmd t \<and> cmdProcess t then [ProcessKill, ProcessWait] else []);
             (t, e3) = (if stderrFile t then (t\<lparr>stderrFile := False\<rparr>, [StderrClose, StderrRemove])
                        else (t, []))
         in (None, t\<lparr>t_connected := False\<rparr>, e1 @ e2 @ e3)))"

text \<open>
  What \<^verbatim>\<open>SendRequest\<close> needs from outside: \<^verbatim>\<open>json.Marshal\<close> of a message, and
  the error of \<^verbatim>\<open>fmt.Fprintln(t.stdin, ...)\<close> for a line (\<open>None\<close> when it is written).
\<close>

record stdio =
  marshal :: "MessageData \<Rightarrow> error + string"
  fprintln :: "string \<Rightarrow> error option"

fun writeMessages :: "stdio \<Rightarrow> gmap \<Rightarrow> MessageData list \<Rightarrow> error option \<times> effect list" where
  "writeMessages io metadata [] = (None, [])"
| "writeMessages io metadata (msg # rest) =
     (let msg = (if mdSessionID msg = []
                 then (case assert_string (index metadata ''session_id'') of
                         Some sessionID \<Rightarrow> msg\<lparr>mdSessionID := sessionID\<rparr>
                       | None \<Rightarrow> msg\<lparr>mdSessionID := ''default''\<rparr>)
                 else msg)
      in case marshal io msg of
           Inl err \<Rightarrow> (Some err, [])
         | Inr data \<Rightarrow>
             (case fprintln io data of
                Some err \<Rightarrow> (Some err, [StdinWrite data])
              | None \<Rightarrow>
                  (case writeMessages io metadata rest of
                     (r, es) \<Rightarrow> (r, StdinWrite data # es))))"

definition SendRequest ::
  "stdio \<Rightarrow> SubprocessCLITransport \<Rightarrow> MessageData list \<Rightarrow> gmap \<Rightarrow> error option \<times> effect list" where
  "SendRequest io t messages metadata =
     (if \<not> isStreaming t then (Some (Errorf ''SendRequest only works in streaming mode''), [])
      else if \<not> stdin t then (Some (Errorf ''stdin not available - stream may have ended''), [])
      else writeMessages io metadata messages)"

text \<open>The transport's \<^verbatim>\<open>ReceiveMessages\<close>: the error, or \<^verbatim>\<open>t.msgChan\<close>.\<close>

definition ReceiveMessages :: "SubprocessCLITransport \<Rightarrow> error option" where
  "ReceiveMessages t = (if \<not> t_connected t then Some (Errorf ''not connected'') else None)"

definition Interrupt :: "SubprocessCLITransport \<Rightarrow> error option" where
  "Interrupt t = Some (Errorf ''interrupt not implemented for subprocess transport'')"

section \<open>The client (client.go)\<close>

text \<open>
  A call returns, panics, or never returns.  \<^verbatim>\<open>c.transport\<close> is only ever given a
  \<^verbatim>\<open>*SubprocessCLITransport\<close>; \<open>None\<close> is the nil interface, and a method called on
  it panics.
\<close>

datatype 'a outcome = Return 'a | Panic | Blocks

record Client =
  transport :: "SubprocessCLITransport option"
  c_connected :: bool

definition NewClient :: Client where
  "NewClient = \<lparr> transport = None, c_connected = False \<rparr>"

definition Client_Connect :: "spawn \<Rightarrow> Client \<Rightarrow> prompt \<Rightarrow> error option \<times> Client" where
  "Client_Connect env c p =
     (if c_connected c then (None, c)
      else
        (let p = (if p = PNil then PChan [] True else p) in
         case NewSubprocessCLITransport env p [] False of
           Inl err \<Rightarrow> (Some err, c)
         | Inr t \<Rightarrow>
             (case Connect env t of
                (Some err, t') \<Rightarrow> (Some err, c\<lparr>transport := Some t'\<rparr>)
              | (None, t') \<Rightarrow> (None, c\<lparr>transport := Some t', c_connected := True\<rparr>))))"

text \<open>
  The goroutine of \<^verbatim>\<open>Client.ReceiveMessages\<close> (and the same loop in \<^verbatim>\<open>Query\<close>), over what
  arrives on the transport's channel until it is closed: the messages it sends on
  \<^verbatim>\<open>msgChan\<close>.  A frame that \<^verbatim>\<open>ParseMessage\<close> rejects is skipped.
\<close>

fun forwardMessages :: "ctx \<Rightarrow> MessageData list \<Rightarrow> Message list" where
  "forwardMessages c [] = []"
| "forwardMessages c (data # rest) =
     (if ctxDone c then []
      else case ParseMessage (messageDataToMap data) of
        Inl err \<Rightarrow> forwardMessages (tick c) rest
      | Inr msg \<Rightarrow>
          if ctxDone (tick c) then []
          else msg # forwardMessages (tick (tick c)) rest)"

definition Client_ReceiveMessages ::
  "ctx \<Rightarrow> Client \<Rightarrow> MessageData list \<Rightarrow> (error + Message list) outcome" where
  "Client_ReceiveMessages cx c dataChan =
     (if \<not> c_connected c then Return (Inl (CLIConnectionError ''Not connected. Call Connect() first.''))
      else case transport c of
        None \<Rightarrow> Panic
      | Some t \<Rightarrow>
          (case ReceiveMessages t of
             Some err \<Rightarrow> Return (Inl err)
           | None \<Rightarrow> Return (Inr (forwardMessages cx dataChan))))"

fun isResult :: "Message \<Rightarrow> bool" where
  "isResult (ResultMessage _) = True"
| "isResult _ = False"

text \<open>
  The goroutine of \<^verbatim>\<open>ReceiveResponse\<close>, \<^verbatim>\<open>for msg := range allMsgs\<close>: the messages it
  sends on \<^verbatim>\<open>respChan\<close> before it returns, and the messages of \<^verbatim>\<open>allMsgs\<close> it has not
  received by then.
\<close>

fun receiveUntilResult :: "ctx \<Rightarrow> Message list \<Rightarrow> Message list \<times> Message list" where
  "receiveUntilResult c [] = ([], [])"
| "receiveUntilResult c (msg # rest) =
     (if ctxDone c then ([], rest)
      else if isResult msg then ([msg], rest)
      else (case receiveUntilResult (tick c) rest of (out, left) \<Rightarrow> (msg # out, left)))"

text \<open>
  The two goroutines behind \<^verbatim>\<open>ReceiveResponse\<close> run against each other.  The
  goroutine of \<^verbatim>\<open>ReceiveMessages\<close> receives from the transport's channel: it takes
  each frame that arrives, and offers the message it parses on \<^verbatim>\<open>allMsgs\<close>, a channel
  without buffer.  The loop of \<^verbatim>\<open>ReceiveResponse\<close> receives from \<^verbatim>\<open>allMsgs\<close>
  until it has forwarded a result message (or its context is cancelled) and then
  returns; it neither cancels the context nor stops the other goroutine.

  \<open>parkNext\<close> is the goroutine of \<^verbatim>\<open>ReceiveMessages\<close> from the moment nobody
  receives from \<^verbatim>\<open>allMsgs\<close> any more: it goes on taking frames until one parses, and
  then stays in the send of that message.  The result is the message it holds there
  (none when the frames run out first, or when the context is cancelled, which makes
  it drop the message and return) and the frames it has left on the transport's
  channel.
\<close>

fun parkNext :: "ctx \<Rightarrow> MessageData list \<Rightarrow> Message option \<times> MessageData list" where
  "parkNext c [] = (None, [])"
| "parkNext c (data # rest) =
     (if ctxDone c then (None, data # rest)
      else case ParseMessage (messageDataToMap data) of
        Inl err \<Rightarrow> parkNext (tick c) rest
      | Inr msg \<Rightarrow> (if ctxDone (tick c) then None else Some msg, rest))"

text \<open>
  \<open>receiveResponse\<close> runs both goroutines over the frames that arrive on the
  transport's channel while no other goroutine receives from it (a later call of
  \<^verbatim>\<open>ReceiveMessages\<close> starts another receiver, and a frame then goes to either of
  them).  The result is the messages delivered on \<^verbatim>\<open>respChan\<close>, the
  message the goroutine of \<^verbatim>\<open>ReceiveMessages\<close> has taken off the transport's channel
  and holds undelivered, and the frames left on the transport's channel.  \<open>c\<close> is the
  context as the goroutine of \<^verbatim>\<open>ReceiveMessages\<close> sees it, \<open>c'\<close> as the loop of
  \<^verbatim>\<open>ReceiveResponse\<close> does.
\<close>

fun receiveResponse ::
  "ctx \<Rightarrow> ctx \<Rightarrow> MessageData list \<Rightarrow> Message list \<times> Message option \<times> MessageData list" where
  "receiveResponse c c' [] = ([], None, [])"
| "receiveResponse c c' (data # rest) =
     (if ctxDone c then ([], None, data # rest)
      else case ParseMessage (messageDataToMap data) of
        Inl err \<Rightarrow> receiveResponse (tick c) c' rest
      | Inr msg \<Rightarrow>
          if ctxDone (tick c) then ([], None, rest)
          else if ctxDone c' then
            (case parkNext (tick (tick c)) rest of (held, left) \<Rightarrow> ([], held, left))
          else if isResult msg then
            (case parkNext (tick (tick c)) rest of (held, left) \<Rightarrow> ([msg], held, left))
          else
            (case receiveResponse (tick (tick c)) (tick c') rest of
               (out, held, left) \<Rightarrow> (msg # out, held, left)))"

text \<open>
  \<^verbatim>\<open>Client.ReceiveResponse\<close>: the error of \<^verbatim>\<open>ReceiveMessages\<close>, or what the two
  goroutines make of the frames on the transport's channel.
\<close>

definition Client_ReceiveResponse ::
  "ctx \<Rightarrow> ctx \<Rightarrow> Client \<Rightarrow> MessageData list \<Rightarrow>
     (error + Message list \<times> Message option \<times> MessageData list) outcome" where
  "Client_ReceiveResponse cx cx' c dataChan =
     (case Client_ReceiveMessages cx c dataChan of
        Return (Inl err) \<Rightarrow> Return (Inl err)
      | Return (Inr allMsgs) \<Rightarrow> Return (Inr (receiveResponse cx cx' dataChan))
      | Panic \<Rightarrow> Panic
      | Blocks \<Rightarrow> Blocks)"

text \<open>
  The maps of a channel or slice prompt turned into \<^verbatim>\<open>MessageData\<close>, each given the
  session identifier when it has none; \<open>None\<close> when \<^verbatim>\<open>mapToMessageData\<close> panics.
\<close>

fun promptMessages :: "string \<Rightarrow> gmap list \<Rightarrow> MessageData list option" where
  "promptMessages sessionID [] = Some []"
| "promptMessages sessionID (msg # rest) =
     (let msg = (if map_of msg ''session_id'' = None
                 then AList.update ''session_id'' (GString sessionID) msg else msg)
      in case mapToMessageData msg of
           None \<Rightarrow> None
         | Some msgData \<Rightarrow> map_option ((#) msgData) (promptMessages sessionID rest))"

definition Client_Query ::
  "stdio \<Rightarrow> Client \<Rightarrow> prompt \<Rightarrow> string \<Rightarrow> error option outcome \<times> effect list" where
  "Client_Query io c p sessionID =
     (if \<not> c_connected c
      then (Return (Some (CLIConnectionError ''Not connected. Call Connect() first.'')), [])
      else
        (let sessionID = (if sessionID = [] then ''default'' else sessionID);
             messages =
               (case p of
                  PString text \<Rightarrow>
                    Return (Inr [zeroMessageData
                      \<lparr> mdType := ''user'',
                        mdMessage := Some [(''role'', GString ''user''), (''content'', GString text)],
                        mdParentToolUseID := None,
                        mdSessionID := sessionID \<rparr>])
                | PChan msgs closes \<Rightarrow>
                    (case promptMessages sessionID msgs of
                       None \<Rightarrow> Panic
                     | Some ms \<Rightarrow> if closes then Return (Inr ms) else Blocks)
                | PSlice msgs \<Rightarrow>
                    (case promptMessages sessionID msgs of
                       None \<Rightarrow> Panic
                     | Some ms \<Rightarrow> Return (Inr ms))
                | _ \<Rightarrow> Return (Inl (Errorf (''unsupported prompt type: '' @ typeName p))))
         in case messages of
              Panic \<Rightarrow> (Panic, [])
            | Blocks \<Rightarrow> (Blocks, [])
            | Return (Inl err) \<Rightarrow> (Return (Some err), [])
            | Return (Inr ms) \<Rightarrow>
                if ms \<noteq> [] then
                  (case transport c of
                     None \<Rightarrow> (Panic, [])
                   | Some t \<Rightarrow>
                       (case SendRequest io t ms [(''session_id'', GString sessionID)] of
                          (r, es) \<Rightarrow> (Return r, es)))
                else (Return None, [])))"

definition Client_Interrupt :: "Client \<Rightarrow> error option outcome" where
  "Client_Interrupt c =
     (if \<not> c_connected c then Return (Some (CLIConnectionError ''Not connected. Call Connect() first.''))
      else case transport c of
        None \<Rightarrow> Panic
      | Some t \<Rightarrow> Return (Interrupt t))"

definition Client_Disconnect :: "Client \<Rightarrow> error option \<times> Client \<times> effect list" where
  "Client_Disconnect c =
     (case transport c of
        Some t \<Rightarrow>
          (case Disconnect t of
             (err, t', es) \<Rightarrow> (err, c\<lparr>transport := None, c_connected := False\<rparr>, es))
      | None \<Rightarrow> (None, c, []))"

section \<open>One-shot queries (query.go)\<close>

text \<open>\<^verbatim>\<open>err.Error()\<close> for the errors of this package (none of them wraps a cause).\<close>

fun Error :: "error \<Rightarrow> string" where
  "Error (Errorf s) = s"
| "Error (CLIConnectionError s) = s"

definition errorMessage :: "error \<Rightarrow> Message" where
  "errorMessage err = SystemMessage ''error'' [(''error'', GString (Error err))]"

text \<open>
  \<^verbatim>\<open>Query\<close>: what its goroutine sends on the returned channel, given the answers of
  the operating system and what the connected transport's channel delivers.
\<close>

definition Query :: "spawn \<Rightarrow> ctx \<Rightarrow> prompt \<Rightarrow> MessageData list \<Rightarrow> Message list" where
  "Query env cx p dataChan =
     (case NewSubprocessCLITransport env p [] True of
        Inl err \<Rightarrow> [errorMessage err]
      | Inr t \<Rightarrow>
          (case Connect env t of
             (Some err, t') \<Rightarrow> [errorMessage err]
           | (None, t') \<Rightarrow>
               (case ReceiveMessages t' of
                  Some err \<Rightarrow> [errorMessage err]
                | None \<Rightarrow> forwardMessages cx dataChan)))"

text \<open>
  The loop of \<^verbatim>\<open>QuerySync\<close> over the messages of the channel, with the slice
  \<^verbatim>\<open>messages\<close> collected so far: the slice and the error it returns.
\<close>

fun collect :: "Message list \<Rightarrow> Message list \<Rightarrow> Message list \<times> error option" where
  "collect messages [] = (messages, None)"
| "collect messages (msg # rest) =
     (let messages = messages @ [msg] in
      case msg of
        SystemMessage subtype data \<Rightarrow>
          if subtype = ''error'' then
            (case assert_string (index data ''error'') of
               Some errStr \<Rightarrow> (messages, Some (CLIConnectionError errStr))
             | None \<Rightarrow> collect messages rest)
          else collect messages rest
      | _ \<Rightarrow> collect messages rest)"

definition QuerySync ::
  "spawn \<Rightarrow> ctx \<Rightarrow> prompt \<Rightarrow> MessageData list \<Rightarrow> Message list \<times> error option" where
  "QuerySync env cx p dataChan = collect [] (Query env cx p dataChan)"

section \<open>Reference values and auxiliary notions\<close>

text \<open>
  Concrete environments, clients, lines and frames on which the operations are
  evaluated below, and the predicates in which the properties are stated.
\<close>

subsection \<open>Environments and clients\<close>

text \<open>
  An operating system on which every call succeeds, one on which the executable is
  not found, and a child input that accepts every line.
\<close>

definition okSpawn :: spawn where
  "okSpawn = \<lparr> findCLI = Inr ''/usr/local/bin/claude'', createTemp = None,
                stdinPipe = None, stdoutPipe = None, start = None \<rparr>"

definition noCLISpawn :: spawn where
  "noCLISpawn = okSpawn\<lparr>findCLI := Inl (Errorf ''Claude Code not found'')\<rparr>"

definition okStdio :: stdio where
  "okStdio = \<lparr> marshal = (\<lambda>msg. Inr (mdType msg)), fprintln = (\<lambda>line. None) \<rparr>"

text \<open>
  A client connected for a reactive session (no prompt: the transport streams), and a
  client connected with a string prompt (the transport does not stream), with the
  transports they hold.
\<close>

definition connectedTransport :: SubprocessCLITransport where
  "connectedTransport = \<lparr> isStreaming = True, closeStdinAfterPrompt = False,
       stdin = True, cmd = True, cmdProcess = True, stderrFile = True, t_connected = True \<rparr>"

definition connectedClient :: Client where
  "connectedClient = snd (Client_Connect okSpawn NewClient PNil)"

definition oneShotTransport :: SubprocessCLITransport where
  "oneShotTransport = \<lparr> isStreaming = False, closeStdinAfterPrompt = False,
       stdin = False, cmd = True, cmdProcess = True, stderrFile = True, t_connected = True \<rparr>"

definition oneShotClient :: Client where
  "oneShotClient = snd (Client_Connect okSpawn NewClient (PString ''hello''))"

subsection \<open>Lines and frames\<close>

text \<open>
  What the transport and the client together compute for one line of valid JSON:
  \<^verbatim>\<open>json.Unmarshal\<close> into \<^verbatim>\<open>MessageData\<close> in \<^verbatim>\<open>readMessages\<close>, then
  \<^verbatim>\<open>messageDataToMap\<close> and \<^verbatim>\<open>ParseMessage\<close> in the client's loop.  \<open>None\<close> when
  \<^verbatim>\<open>json.Unmarshal\<close> returns an error.
\<close>

definition decodeLine :: "json \<Rightarrow> (error + Message) option" where
  "decodeLine j =
     map_option (\<lambda>data. ParseMessage (messageDataToMap data)) (unmarshalMessageData j)"

text \<open>
  The result line and the assistant line of the specification's scenarios, with the
  frame \<^verbatim>\<open>json.Unmarshal\<close> makes of each, and the typed result.  \<open>oneCent\<close> is the
  \<^verbatim>\<open>float64\<close> written \<^verbatim>\<open>0.01\<close>.
\<close>

definition oneCent :: rat where
  "oneCent = 5764607523034235 / 576460752303423488"

definition specResultLine :: json where
  "specResultLine = JObject
     [(''type'', JString ''result''), (''subtype'', JString ''success''),
      (''duration_ms'', JInt 1500), (''duration_api_ms'', JInt 1200),
      (''is_error'', JBool False), (''num_turns'', JInt 1),
      (''session_id'', JString ''s1''), (''total_cost_usd'', JFrac (1 / 100))]"

definition specResultFrame :: MessageData where
  "specResultFrame = zeroMessageData\<lparr>mdType := ''result'', mdSubtype := ''success'',
       mdDurationMS := 1500, mdDurationAPIMS := 1200, mdIsError := False, mdNumTurns := 1,
       mdSessionID := ''s1'', mdTotalCostUSD := Some oneCent\<rparr>"

definition specResultMessage :: ResultMessage where
  "specResultMessage =
     \<lparr> Subtype = ''success'', DurationMS = 1500, DurationAPIMS = 1200, IsError = False,
       NumTurns = 1, SessionID = ''s1'', TotalCostUSD = Some oneCent, Usage = None,
       Result = None \<rparr>"

definition specAssistantLine :: json where
  "specAssistantLine = JObject
     [(''type'', JString ''assistant''),
      (''message'', JObject
         [(''model'', JString ''m1''),
          (''content'',
             JArray [JObject [(''type'', JString ''text''), (''text'', JString ''hi'')]])])]"

definition specAssistantFrame :: MessageData where
  "specAssistantFrame = zeroMessageData\<lparr>mdType := ''assistant'',
     mdMessage := Some [(''model'', GString ''m1''),
       (''content'', GSlice [GMap [(''type'', GString ''text''), (''text'', GString ''hi'')]])]\<rparr>"

text \<open>
  Variants of the result line: the API duration is zero; \<^verbatim>\<open>is_error\<close> is left out;
  \<^verbatim>\<open>duration_ms\<close> is \<^verbatim>\<open>1500.9\<close>.  \<open>fractionalDuration\<close> is the \<^verbatim>\<open>float64\<close> written
  \<^verbatim>\<open>1500.9\<close>.
\<close>

definition zeroApiDurationLine :: json where
  "zeroApiDurationLine = JObject
     [(''type'', JString ''result''), (''subtype'', JString ''success''),
      (''duration_ms'', JInt 1500), (''duration_api_ms'', JInt 0),
      (''is_error'', JBool False), (''num_turns'', JInt 1),
      (''session_id'', JString ''s1''), (''total_cost_usd'', JFrac (1 / 100))]"

definition noIsErrorLine :: json where
  "noIsErrorLine = JObject
     [(''type'', JString ''result''), (''subtype'', JString ''success''),
      (''duration_ms'', JInt 1500), (''duration_api_ms'', JInt 1200),
      (''num_turns'', JInt 1), (''session_id'', JString ''s1'')]"

definition fractionalDuration :: rat where
  "fractionalDuration = 3300514004257997 / 2199023255552"

definition fractionalResultLine :: json where
  "fractionalResultLine = JObject
     [(''type'', JString ''result''), (''subtype'', JString ''success''),
      (''duration_ms'', JFrac (15009 / 10)), (''duration_api_ms'', JInt 1200),
      (''is_error'', JBool False), (''num_turns'', JInt 1),
      (''session_id'', JString ''s1'')]"

text \<open>
  A frame of unknown type, and system frames of subtype \<^verbatim>\<open>info\<close> and of subtype
  \<^verbatim>\<open>error\<close>.
\<close>

definition unknownTypeFrame :: MessageData where
  "unknownTypeFrame = zeroMessageData\<lparr>mdType := ''mystery''\<rparr>"

definition infoFrame :: MessageData where
  "infoFrame = zeroMessageData\<lparr>mdType := ''system'', mdSubtype := ''info''\<rparr>"

definition systemErrorFrame :: MessageData where
  "systemErrorFrame = zeroMessageData\<lparr>mdType := ''system'', mdSubtype := ''error''\<rparr>"

text \<open>
  For the reader: the overflow error, a line of 600000 characters that is not JSON, a
  well-formed system line with its decoded value and frame, and a reader of JSON syntax
  that accepts one given text.
\<close>

definition overflowError :: error where
  "overflowError = Errorf ''JSON message exceeded maximum buffer size''"

definition bigLine :: string where
  "bigLine = replicate 600000 (CHR ''x'')"

definition initLine :: string where
  \<open>initLine = ''{"type":"system","subtype":"init"}''\<close>

definition initJson :: json where
  "initJson = JObject [(''type'', JString ''system''), (''subtype'', JString ''init'')]"

definition initFrame :: MessageData where
  "initFrame = zeroMessageData\<lparr>mdType := ''system'', mdSubtype := ''init''\<rparr>"

definition parseOnly :: "string \<Rightarrow> json \<Rightarrow> string \<Rightarrow> json option" where
  "parseOnly text j s = (if s = text then Some j else None)"

text \<open>
  A user line whose \<^verbatim>\<open>message\<close> is a string where an object is required, with its
  decoded value, and a reader of JSON syntax given by a table: it accepts the texts of
  the table and no other.  \<open>twoLines\<close> accepts the user line and the system line, each
  on its own (one after the other they are not one JSON value).
\<close>

definition userStringLine :: string where
  \<open>userStringLine = ''{"type":"user","message":"hello"}''\<close>

definition userStringJson :: json where
  "userStringJson = JObject [(''type'', JString ''user''), (''message'', JString ''hello'')]"

definition parseTable :: "(string \<times> json) list \<Rightarrow> string \<Rightarrow> json option" where
  "parseTable table s = map_of table s"

definition twoLines :: "string \<Rightarrow> json option" where
  "twoLines = parseTable [(userStringLine, userStringJson), (initLine, initJson)]"

subsection \<open>Predicates used in the statements\<close>

text \<open>
  The text \<^verbatim>\<open>QuerySync\<close> looks for in a message: the string under \<^verbatim>\<open>error\<close> in the
  data of a system message of subtype \<^verbatim>\<open>error\<close>.
\<close>

definition errorText :: "Message \<Rightarrow> string option" where
  "errorText msg =
     (case msg of
        SystemMessage subtype data \<Rightarrow>
          if subtype = ''error'' then assert_string (index data ''error'') else None
      | _ \<Rightarrow> None)"

section \<open>Evaluation of the reference values\<close>

lemma float64_examples:
  "float64 0 = Some 0" "float64 1 = Some 1" "float64 1200 = Some 1200"
  "float64 1500 = Some 1500" "float64 (1 / 100) = Some oneCent"
  "float64 (15009 / 10) = Some fractionalDuration"
  unfolding oneCent_def fractionalDuration_def by code_simp+

lemma upperASCII_letters:
  "upperASCII (CHR ''a'') = CHR ''A''"
  "upperASCII (CHR ''b'') = CHR ''B''"
  "upperASCII (CHR ''c'') = CHR ''C''"
  "upperASCII (CHR ''d'') = CHR ''D''"
  "upperASCII (CHR ''e'') = CHR ''E''"
  "upperASCII (CHR ''f'') = CHR ''F''"
  "upperASCII (CHR ''g'') = CHR ''G''"
  "upperASCII (CHR ''h'') = CHR ''H''"
  "upperASCII (CHR ''i'') = CHR ''I''"
  "upperASCII (CHR ''j'') = CHR ''J''"
  "upperASCII (CHR ''k'') = CHR ''K''"
  "upperASCII (CHR ''l'') = CHR ''L''"
  "upperASCII (CHR ''m'') = CHR ''M''"
  "upperASCII (CHR ''n'') = CHR ''N''"
  "upperASCII (CHR ''o'') = CHR ''O''"
  "upperASCII (CHR ''p'') = CHR ''P''"
  "upperASCII (CHR ''q'') = CHR ''Q''"
  "upperASCII (CHR ''r'') = CHR ''R''"
  "upperASCII (CHR ''s'') = CHR ''S''"
  "upperASCII (CHR ''t'') = CHR ''T''"
  "upperASCII (CHR ''u'') = CHR ''U''"
  "upperASCII (CHR ''v'') = CHR ''V''"
  "upperASCII (CHR ''w'') = CHR ''W''"
  "upperASCII (CHR ''x'') = CHR ''X''"
  "upperASCII (CHR ''y'') = CHR ''Y''"
  "upperASCII (CHR ''z'') = CHR ''Z''"
  "upperASCII (CHR ''_'') = CHR ''_''"
  by (simp_all add: upperASCII_def)

lemma foldName_tags:
  "foldName ''type'' = ''TYPE''"
  "foldName ''message'' = ''MESSAGE''"
  "foldName ''parent_tool_use_id'' = ''PARENT_TOOL_USE_ID''"
  "foldName ''session_id'' = ''SESSION_ID''"
  "foldName ''content'' = ''CONTENT''"
  "foldName ''model'' = ''MODEL''"
  "foldName ''subtype'' = ''SUBTYPE''"
  "foldName ''data'' = ''DATA''"
  "foldName ''duration_ms'' = ''DURATION_MS''"
  "foldName ''duration_api_ms'' = ''DURATION_API_MS''"
  "foldName ''is_error'' = ''IS_ERROR''"
  "foldName ''num_turns'' = ''NUM_TURNS''"
  "foldName ''total_cost_usd'' = ''TOTAL_COST_USD''"
  "foldName ''usage'' = ''USAGE''"
  "foldName ''result'' = ''RESULT''"
  by (simp_all add: upperASCII_letters)

lemmas setField_defs = setField_def set_string_def set_int_def set_bool_def
  set_float64_ptr_def set_string_ptr_def set_map_def foldName_tags upperASCII_letters
  float64_examples

lemmas toMap_defs = zeroMessageData_def messageDataToMap_def setIf_def setNotNil_def

lemmas parse_defs = ParseMessage_def parseResultMessage_def parseSystemMessage_def
  parseAssistantMessage_def parseUserMessage_def parseContentBlock_def index_def getInt_def

lemma int_of_float64_trunc:
  assumes "- (2 ^ 63) \<le> v" "v < 2 ^ 63"
  shows "int_of_float64 v = (if v < 0 then \<lceil>v\<rceil> else \<lfloor>v\<rfloor>)"
proof (cases "v < 0")
  case True
  have t: "(if v < 0 then - \<lfloor>- v\<rfloor> else \<lfloor>v\<rfloor>) = \<lceil>v\<rceil>"
    using True by (simp add: ceiling_def)
  have "of_int (- (2 ^ 63)) \<le> v" using assms(1) by simp
  then have lo: "- (2 ^ 63) \<le> \<lceil>v\<rceil>" by (simp only: le_ceiling_iff)
  have "\<lceil>v\<rceil> \<le> 0" using True by (simp add: ceiling_le_iff)
  then have hi: "\<lceil>v\<rceil> < 2 ^ 63" by simp
  show ?thesis unfolding int_of_float64_def Let_def t using lo hi True by simp
next
  case False
  have t: "(if v < 0 then - \<lfloor>- v\<rfloor> else \<lfloor>v\<rfloor>) = \<lfloor>v\<rfloor>"
    using False by simp
  have lo: "- (2 ^ 63) \<le> \<lfloor>v\<rfloor>" using False by (simp add: le_floor_iff)
  have "v < of_int (2 ^ 63)" using assms(2) by simp
  then have hi: "\<lfloor>v\<rfloor> < 2 ^ 63" by (simp only: floor_less_iff)
  show ?thesis unfolding int_of_float64_def Let_def t using lo hi False by simp
qed

lemma int_of_float64_of_int:
  "- (2 ^ 63) \<le> i \<Longrightarrow> i < 2 ^ 63 \<Longrightarrow> int_of_float64 (of_int i) = i"
  by (simp add: int_of_float64_def Let_def)

lemma int_of_float64_examples:
  "int_of_float64 1500 = 1500" "int_of_float64 1200 = 1200" "int_of_float64 0 = 0"
  "int_of_float64 1 = 1"
  using int_of_float64_of_int [of 1500] int_of_float64_of_int [of 1200]
    int_of_float64_of_int [of 0] int_of_float64_of_int [of 1]
  by simp_all

lemma int_of_float64_ex1: "int_of_float64 (15009 / 10) = 1500"
  unfolding int_of_float64_def Let_def by code_simp

lemma int_of_float64_ex2: "int_of_float64 fractionalDuration = 1500"
  unfolding int_of_float64_def Let_def fractionalDuration_def by code_simp

lemma unmarshal_specResultLine:
  "unmarshalMessageData specResultLine = Some specResultFrame"
  by (simp add: specResultLine_def specResultFrame_def unmarshalMessageData_def setField_defs
       zeroMessageData_def)

lemma map_specResultFrame:
  "messageDataToMap specResultFrame =
    [(''type'', GString ''result''), (''session_id'', GString ''s1''),
     (''subtype'', GString ''success''), (''duration_ms'', GInt 1500),
     (''duration_api_ms'', GInt 1200), (''is_error'', GBool False), (''num_turns'', GInt 1),
     (''total_cost_usd'', GFloat64 oneCent)]"
  by (simp add: specResultFrame_def toMap_defs)

lemma parse_specResultFrame:
  "ParseMessage (messageDataToMap specResultFrame) = Inr (ResultMessage specResultMessage)"
  unfolding map_specResultFrame by (simp add: parse_defs specResultMessage_def)

lemma decode_specResultLine:
  "decodeLine specResultLine = Some (Inr (ResultMessage specResultMessage))"
  by (simp add: decodeLine_def unmarshal_specResultLine parse_specResultFrame)

lemma unmarshal_specAssistantLine:
  "unmarshalMessageData specAssistantLine = Some specAssistantFrame"
  by (simp add: specAssistantLine_def specAssistantFrame_def unmarshalMessageData_def
       setField_defs zeroMessageData_def)

lemma map_specAssistantFrame:
  "messageDataToMap specAssistantFrame =
    [(''type'', GString ''assistant''),
     (''message'', GMap [(''model'', GString ''m1''),
       (''content'', GSlice [GMap [(''type'', GString ''text''), (''text'', GString ''hi'')]])]),
     (''is_error'', GBool False)]"
  by (simp add: specAssistantFrame_def toMap_defs)

lemma decode_specAssistantLine:
  "decodeLine specAssistantLine = Some (Inr (AssistantMessage [TextBlock ''hi''] ''m1''))"
  unfolding decodeLine_def unmarshal_specAssistantLine option.map map_specAssistantFrame
  by (simp add: parse_defs)

lemma unmarshal_zeroApiDurationLine:
  "unmarshalMessageData zeroApiDurationLine = Some (specResultFrame\<lparr>mdDurationAPIMS := 0\<rparr>)"
  by (simp add: zeroApiDurationLine_def specResultFrame_def unmarshalMessageData_def
       setField_defs zeroMessageData_def)

lemma map_zeroApiDurationFrame:
  "messageDataToMap (specResultFrame\<lparr>mdDurationAPIMS := 0\<rparr>) =
    [(''type'', GString ''result''), (''session_id'', GString ''s1''),
     (''subtype'', GString ''success''), (''duration_ms'', GInt 1500),
     (''is_error'', GBool False), (''num_turns'', GInt 1),
     (''total_cost_usd'', GFloat64 oneCent)]"
  by (simp add: specResultFrame_def toMap_defs)

lemma parse_zeroApiDurationFrame:
  "ParseMessage (messageDataToMap (specResultFrame\<lparr>mdDurationAPIMS := 0\<rparr>)) =
     Inl (Errorf ''missing 'duration_api_ms' field in result message'')"
  unfolding map_zeroApiDurationFrame by (simp add: parse_defs)

lemma unmarshalMap_zeroApiDurationLine:
  "unmarshalMap zeroApiDurationLine = Some
    [(''type'', GString ''result''), (''subtype'', GString ''success''),
     (''duration_ms'', GFloat64 1500), (''duration_api_ms'', GFloat64 0),
     (''is_error'', GBool False), (''num_turns'', GFloat64 1),
     (''session_id'', GString ''s1''), (''total_cost_usd'', GFloat64 oneCent)]"
  by (simp add: zeroApiDurationLine_def unmarshalMap_def float64_examples)

lemma unmarshal_noIsErrorLine:
  "unmarshalMessageData noIsErrorLine = Some (specResultFrame\<lparr>mdTotalCostUSD := None\<rparr>)"
  by (simp add: noIsErrorLine_def specResultFrame_def unmarshalMessageData_def
       setField_defs zeroMessageData_def)

lemma map_noIsErrorFrame:
  "messageDataToMap (specResultFrame\<lparr>mdTotalCostUSD := None\<rparr>) =
    [(''type'', GString ''result''), (''session_id'', GString ''s1''),
     (''subtype'', GString ''success''), (''duration_ms'', GInt 1500),
     (''duration_api_ms'', GInt 1200), (''is_error'', GBool False), (''num_turns'', GInt 1)]"
  by (simp add: specResultFrame_def toMap_defs)

lemma parse_noIsErrorFrame:
  "ParseMessage (messageDataToMap (specResultFrame\<lparr>mdTotalCostUSD := None\<rparr>)) =
     Inr (ResultMessage (specResultMessage\<lparr>TotalCostUSD := None\<rparr>))"
  unfolding map_noIsErrorFrame by (simp add: parse_defs specResultMessage_def)

lemma unmarshalMap_noIsErrorLine:
  "unmarshalMap noIsErrorLine = Some
    [(''type'', GString ''result''), (''subtype'', GString ''success''),
     (''duration_ms'', GFloat64 1500), (''duration_api_ms'', GFloat64 1200),
     (''num_turns'', GFloat64 1), (''session_id'', GString ''s1'')]"
  by (simp add: noIsErrorLine_def unmarshalMap_def float64_examples)

lemma unmarshalMap_fractionalResultLine:
  "unmarshalMap fractionalResultLine = Some
    [(''type'', GString ''result''), (''subtype'', GString ''success''),
     (''duration_ms'', GFloat64 fractionalDuration), (''duration_api_ms'', GFloat64 1200),
     (''is_error'', GBool False), (''num_turns'', GFloat64 1),
     (''session_id'', GString ''s1'')]"
  by (simp add: fractionalResultLine_def unmarshalMap_def float64_examples)

lemma map_unknownTypeFrame:
  "messageDataToMap unknownTypeFrame = [(''type'', GString ''mystery''), (''is_error'', GBool False)]"
  by (simp add: unknownTypeFrame_def toMap_defs)

lemma parse_unknownTypeFrame:
  "ParseMessage (messageDataToMap unknownTypeFrame) =
     Inl (Errorf ''unknown message type: mystery'')"
  unfolding map_unknownTypeFrame by (simp add: parse_defs)

lemma parse_infoFrame:
  "ParseMessage (messageDataToMap infoFrame) =
     Inr (SystemMessage ''info''
       [(''type'', GString ''system''), (''subtype'', GString ''info''),
        (''is_error'', GBool False)])"
  by (simp add: infoFrame_def toMap_defs parse_defs)

lemma parse_initFrame:
  "ParseMessage (messageDataToMap initFrame) =
     Inr (SystemMessage ''init''
       [(''type'', GString ''system''), (''subtype'', GString ''init''),
        (''is_error'', GBool False)])"
  by (simp add: initFrame_def toMap_defs parse_defs)

lemma parse_specAssistantFrame:
  "ParseMessage (messageDataToMap specAssistantFrame) =
     Inr (AssistantMessage [TextBlock ''hi''] ''m1'')"
  unfolding map_specAssistantFrame by (simp add: parse_defs)

lemma unmarshal_userStringJson: "unmarshalMessageData userStringJson = None"
  by (simp add: userStringJson_def unmarshalMessageData_def setField_defs zeroMessageData_def)

lemma unmarshal_initJson: "unmarshalMessageData initJson = Some initFrame"
  by (simp add: initJson_def initFrame_def unmarshalMessageData_def setField_defs
      zeroMessageData_def)

lemma connectedClient_eq:
  "connectedClient = \<lparr> transport = Some connectedTransport, c_connected = True \<rparr>"
  by (simp add: connectedClient_def Client_Connect_def NewClient_def connectedTransport_def
      NewSubprocessCLITransport_def okSpawn_def Connect_def Let_def)

lemma oneShotClient_eq:
  "oneShotClient = \<lparr> transport = Some oneShotTransport, c_connected = True \<rparr>"
  by (simp add: oneShotClient_def Client_Connect_def NewClient_def oneShotTransport_def
      NewSubprocessCLITransport_def okSpawn_def Connect_def Let_def)

lemma TrimLeft_no_space:
  assumes "\<not> isSpace a" "a \<notin> set [CHR 0xC2, CHR 0xE1, CHR 0xE2, CHR 0xE3]"
  shows "TrimLeft (a # s) = a # s"
proof (cases s)
  case Nil
  with assms show ?thesis by simp
next
  case (Cons b s')
  with assms show ?thesis by (cases s') (simp_all add: isSpace2_def isSpace3_def)
qed

lemma TrimRight_no_space:
  assumes "\<not> isSpace c" "c \<notin> set [CHR 0x85, CHR 0xA0, CHR 0x80, CHR 0x81, CHR 0x82, CHR 0x83,
      CHR 0x84, CHR 0x86, CHR 0x87, CHR 0x88, CHR 0x89, CHR 0x8A, CHR 0xA8, CHR 0xA9, CHR 0xAF,
      CHR 0x9F]"
  shows "TrimRight (c # s) = c # s"
proof (cases s)
  case Nil
  with assms show ?thesis by simp
next
  case (Cons b s')
  with assms show ?thesis by (cases s') (auto simp add: isSpace2_def isSpace3_def)
qed

lemma TrimSpace_no_space:
  assumes "s \<noteq> []" "\<not> isSpace (hd s)" "\<not> isSpace (last s)"
    "hd s \<notin> set [CHR 0xC2, CHR 0xE1, CHR 0xE2, CHR 0xE3]"
    "last s \<notin> set [CHR 0x85, CHR 0xA0, CHR 0x80, CHR 0x81, CHR 0x82, CHR 0x83,
      CHR 0x84, CHR 0x86, CHR 0x87, CHR 0x88, CHR 0x89, CHR 0x8A, CHR 0xA8, CHR 0xA9, CHR 0xAF,
      CHR 0x9F]"
  shows "TrimSpace s = s"
proof -
  from assms(1) obtain a s' where s: "s = a # s'" by (cases s) auto
  with assms have a: "TrimLeft s = s" using TrimLeft_no_space [of a s'] by simp
  have "rev (butlast s @ [last s]) = last s # rev (butlast s)" by simp
  with assms(1) have l: "rev s = last s # rev (butlast s)" by simp
  from assms(3,5) have "TrimRight (last s # rev (butlast s)) = last s # rev (butlast s)"
    by (rule TrimRight_no_space)
  then have "TrimRight (rev s) = rev s" by (simp only: l)
  with a show ?thesis by (simp add: TrimSpace_def)
qed

lemma bigLine_facts:
  "length bigLine = 600000" "TrimSpace bigLine = bigLine" "bigLine \<noteq> []"
proof -
  show l: "length bigLine = 600000" by (simp add: bigLine_def)
  show n: "bigLine \<noteq> []" by (simp add: bigLine_def)
  have "hd bigLine = CHR ''x''" "last bigLine = CHR ''x''" by (simp_all add: bigLine_def)
  with n show "TrimSpace bigLine = bigLine"
    by (intro TrimSpace_no_space) (simp_all add: isSpace_def)
qed

lemma initLine_facts:
  "length initLine = 34" "TrimSpace initLine = initLine" "initLine \<noteq> []"
proof -
  show "length initLine = 34" by (simp add: initLine_def)
  show "initLine \<noteq> []" by (simp add: initLine_def)
  show "TrimSpace initLine = initLine"
    by (intro TrimSpace_no_space) (simp_all add: initLine_def isSpace_def)
qed

lemma userStringLine_facts:
  "length userStringLine = 33" "TrimSpace userStringLine = userStringLine"
  "userStringLine \<noteq> []"
proof -
  show "length userStringLine = 33" by (simp add: userStringLine_def)
  show "userStringLine \<noteq> []" by (simp add: userStringLine_def)
  show "TrimSpace userStringLine = userStringLine"
    by (intro TrimSpace_no_space) (simp_all add: userStringLine_def isSpace_def)
qed

lemma twoLines_facts:
  "twoLines userStringLine = Some userStringJson"
  "twoLines initLine = Some initJson"
  "twoLines (userStringLine @ initLine) = None"
proof -
  show "twoLines userStringLine = Some userStringJson"
    by (simp add: twoLines_def parseTable_def)
  have "length userStringLine \<noteq> length initLine"
    by (simp add: userStringLine_facts initLine_facts)
  then have ne: "userStringLine \<noteq> initLine" by auto
  then show "twoLines initLine = Some initJson"
    by (simp add: twoLines_def parseTable_def)
  have "length (userStringLine @ initLine) \<noteq> length userStringLine"
    "length (userStringLine @ initLine) \<noteq> length initLine"
    by (simp_all add: userStringLine_facts initLine_facts)
  then have "userStringLine @ initLine \<noteq> userStringLine" "userStringLine @ initLine \<noteq> initLine"
    by auto
  then show "twoLines (userStringLine @ initLine) = None"
    by (simp add: twoLines_def parseTable_def)
qed

lemma parseOnly_big:
  "parseOnly initLine initJson bigLine = None"
  "parseOnly initLine initJson initLine = Some initJson"
proof -
  have "length bigLine \<noteq> length initLine" by (simp add: bigLine_facts initLine_facts)
  then have "bigLine \<noteq> initLine" by auto
  then show "parseOnly initLine initJson bigLine = None" by (simp add: parseOnly_def)
  show "parseOnly initLine initJson initLine = Some initJson" by (simp add: parseOnly_def)
qed

subsection \<open>Reading the rebuilt envelope\<close>

lemma map_of_setIf:
  "map_of (setIf cond k v m) k' = (if cond \<and> k' = k then Some v else map_of m k')"
  by (simp add: setIf_def update_conv')

lemma map_of_setNotNil:
  "map_of (setNotNil k p m) k' = (if k' = k \<and> p \<noteq> None then p else map_of m k')"
  by (cases p) (simp_all add: setNotNil_def update_conv')

lemma map_of_messageDataToMap:
  "map_of (messageDataToMap d) k =
     (if k = ''result'' \<and> mdResult d \<noteq> None then map_option GString (mdResult d)
      else if k = ''usage'' \<and> mdUsage d \<noteq> None then map_option GMap (mdUsage d)
      else if k = ''total_cost_usd'' \<and> mdTotalCostUSD d \<noteq> None
        then map_option GFloat64 (mdTotalCostUSD d)
      else if 0 < mdNumTurns d \<and> k = ''num_turns'' then Some (GInt (mdNumTurns d))
      else if k = ''is_error'' then Some (GBool (mdIsError d))
      else if 0 < mdDurationAPIMS d \<and> k = ''duration_api_ms''
        then Some (GInt (mdDurationAPIMS d))
      else if 0 < mdDurationMS d \<and> k = ''duration_ms'' then Some (GInt (mdDurationMS d))
      else if k = ''data'' \<and> mdData d \<noteq> None then map_option GMap (mdData d)
      else if mdSubtype d \<noteq> [] \<and> k = ''subtype'' then Some (GString (mdSubtype d))
      else if mdModel d \<noteq> [] \<and> k = ''model'' then Some (GString (mdModel d))
      else if mdContent d \<noteq> GNil \<and> k = ''content'' then Some (mdContent d)
      else if mdSessionID d \<noteq> [] \<and> k = ''session_id'' then Some (GString (mdSessionID d))
      else if k = ''parent_tool_use_id'' \<and> mdParentToolUseID d \<noteq> None
        then map_option GString (mdParentToolUseID d)
      else if k = ''message'' \<and> mdMessage d \<noteq> None then map_option GMap (mdMessage d)
      else if k = ''type'' then Some (GString (mdType d))
      else None)"
  unfolding messageDataToMap_def Let_def
  by (simp only: map_of_setIf map_of_setNotNil update_conv' fun_upd_apply map_of.simps
        option.map_disc_iff)

section \<open>Properties of the parser\<close>

lemma parseContentBlocks_Inl:
  "parseContentBlocks items = Inl err \<Longrightarrow> \<exists>item \<in> set items. parseContentBlock item = Inl err"
  by (induction items arbitrary: err) (auto split: sum.splits)

text \<open>
  Claim C9.  For an envelope that carries a \<^verbatim>\<open>message\<close> object, \<^verbatim>\<open>parseUserMessage\<close>
  succeeds whenever \<^verbatim>\<open>content\<close> is not an array, and stores the value as it is: a
  string, any other value that is not an array, or nil when the key is absent.
  \<^verbatim>\<open>ParseMessage\<close> hands every envelope of type \<^verbatim>\<open>user\<close> to it.  It returns an error
  only when \<^verbatim>\<open>message\<close> is missing or not an object, or when \<^verbatim>\<open>content\<close> is an array
  one of whose elements \<^verbatim>\<open>parseContentBlock\<close> rejects (with that element's error).
\<close>

theorem parseUserMessage_content_unvalidated:
  "(assert_map (index data ''message'') = Some messageData \<and>
      assert_slice (index messageData ''content'') = None \<longrightarrow>
      parseUserMessage data = Inr (UserMessage (ContentValue (index messageData ''content''))))
   \<and> (assert_map (index data ''message'') = Some messageData \<and>
      map_of messageData ''content'' = None \<longrightarrow>
      parseUserMessage data = Inr (UserMessage (ContentValue GNil)))
   \<and> (assert_string (index data ''type'') = Some ''user'' \<longrightarrow>
      ParseMessage data = parseUserMessage data)
   \<and> (parseUserMessage data = Inl err \<longrightarrow>
      assert_map (index data ''message'') = None \<or>
      (\<exists>md contentList.
         assert_map (index data ''message'') = Some md \<and>
         index md ''content'' = GSlice contentList \<and>
         (\<exists>item \<in> set contentList. parseContentBlock item = Inl err)))"
proof (intro conjI impI)
  assume h: "assert_map (index data ''message'') = Some messageData \<and>
      assert_slice (index messageData ''content'') = None"
  then show "parseUserMessage data = Inr (UserMessage (ContentValue (index messageData ''content'')))"
    by (simp add: parseUserMessage_def)
next
  assume h: "assert_map (index data ''message'') = Some messageData \<and>
      map_of messageData ''content'' = None"
  then show "parseUserMessage data = Inr (UserMessage (ContentValue GNil))"
    by (simp add: parseUserMessage_def index_def)
next
  assume "assert_string (index data ''type'') = Some ''user''"
  then show "ParseMessage data = parseUserMessage data"
    by (simp add: ParseMessage_def)
next
  assume e: "parseUserMessage data = Inl err"
  show "assert_map (index data ''message'') = None \<or>
      (\<exists>md contentList.
         assert_map (index data ''message'') = Some md \<and>
         index md ''content'' = GSlice contentList \<and>
         (\<exists>item \<in> set contentList. parseContentBlock item = Inl err))"
  proof (cases "assert_map (index data ''message'')")
    case None
    then show ?thesis by simp
  next
    case (Some md)
    show ?thesis
    proof (cases "index md ''content''")
      case (GSlice contentList)
      with e Some have "parseContentBlocks contentList = Inl err"
        by (simp add: parseUserMessage_def split: sum.splits)
      then have "\<exists>item \<in> set contentList. parseContentBlock item = Inl err"
        by (rule parseContentBlocks_Inl)
      with Some GSlice show ?thesis by simp
    qed (use e Some in \<open>simp_all add: parseUserMessage_def\<close>)
  qed
qed

theorem parseUserMessage_content_unvalidated_witness:
  "parseUserMessage [(''type'', GString ''user''), (''message'', GMap [(''content'', GInt 7)])]
     = Inr (UserMessage (ContentValue (GInt 7)))
   \<and> ParseMessage [(''type'', GString ''user''), (''message'', GMap [(''role'', GString ''user'')])]
     = Inr (UserMessage (ContentValue GNil))
   \<and> parseUserMessage [(''message'', GMap [(''content'', GSlice [GInt 1])])]
     = Inl (Errorf ''invalid content block format'')
   \<and> parseContentBlock (GInt 1) = Inl (Errorf ''invalid content block format'')"
  using parseUserMessage_content_unvalidated
          [of "[(''type'', GString ''user''), (''message'', GMap [(''content'', GInt 7)])]"
              "[(''content'', GInt 7)]" "Errorf ''x''"]
        parseUserMessage_content_unvalidated
          [of "[(''type'', GString ''user''), (''message'', GMap [(''role'', GString ''user'')])]"
              "[(''role'', GString ''user'')]" "Errorf ''x''"]
        parseUserMessage_content_unvalidated
          [of "[(''message'', GMap [(''content'', GSlice [GInt 1])])]"
              "[(''content'', GSlice [GInt 1])]" "Errorf ''invalid content block format''"]
  by (simp add: index_def parseUserMessage_def parseContentBlock_def)

text \<open>
  Claim C10.  \<^verbatim>\<open>getInt\<close> accepts a \<^verbatim>\<open>float64\<close> under a key and returns its conversion
  to \<^verbatim>\<open>int\<close>, which is the truncation towards zero for every value in the range of
  \<^verbatim>\<open>int\<close>.  So a result envelope whose \<^verbatim>\<open>duration_ms\<close>, \<^verbatim>\<open>duration_api_ms\<close> or
  \<^verbatim>\<open>num_turns\<close> is a number with a fraction is decoded, with the truncated value in
  the field, and not rejected: \<^verbatim>\<open>ParseMessage\<close> succeeds as soon as \<^verbatim>\<open>getInt\<close> finds the
  three numbers and the other required fields are there.
\<close>

theorem getInt_truncates_float64:
  "(map_of data key = Some (GFloat64 v) \<longrightarrow> getInt data key = Some (int_of_float64 v))
   \<and> (- (2 ^ 63) \<le> v \<and> v < 2 ^ 63 \<longrightarrow>
        int_of_float64 v = (if v < 0 then \<lceil>v\<rceil> else \<lfloor>v\<rfloor>))
   \<and> (assert_string (index data ''type'') = Some ''result'' \<and>
      assert_string (index data ''subtype'') = Some subtype \<and>
      getInt data ''duration_ms'' = Some durationMS \<and>
      getInt data ''duration_api_ms'' = Some durationAPIMS \<and>
      assert_bool (index data ''is_error'') = Some isError \<and>
      getInt data ''num_turns'' = Some numTurns \<and>
      assert_string (index data ''session_id'') = Some sessionID \<longrightarrow>
      ParseMessage data = Inr (ResultMessage
        \<lparr> Subtype = subtype, DurationMS = durationMS, DurationAPIMS = durationAPIMS,
          IsError = isError, NumTurns = numTurns, SessionID = sessionID,
          TotalCostUSD = assert_float64 (index data ''total_cost_usd''),
          Usage = assert_map (index data ''usage''),
          Result = assert_string (index data ''result'') \<rparr>))"
  by (auto simp add: getInt_def int_of_float64_trunc ParseMessage_def parseResultMessage_def)

theorem getInt_truncates_float64_witness:
  "map_of [(''type'', GString ''result''), (''subtype'', GString ''success''),
     (''duration_ms'', GFloat64 (15009 / 10)), (''duration_api_ms'', GFloat64 1200),
     (''is_error'', GBool False), (''num_turns'', GFloat64 1),
     (''session_id'', GString ''s1'')] ''duration_ms'' = Some (GFloat64 (15009 / 10))
   \<and> int_of_float64 (15009 / 10) = 1500
   \<and> ParseMessageFromJSON (Some fractionalResultLine)
     = Inr (ResultMessage
        \<lparr> Subtype = ''success'', DurationMS = 1500, DurationAPIMS = 1200,
          IsError = False, NumTurns = 1, SessionID = ''s1'',
          TotalCostUSD = None, Usage = None, Result = None \<rparr>)
   \<and> float64 (15009 / 10) = Some fractionalDuration
   \<and> int_of_float64 fractionalDuration = 1500"
proof -
  let ?read = "[(''type'', GString ''result''), (''subtype'', GString ''success''),
     (''duration_ms'', GFloat64 fractionalDuration), (''duration_api_ms'', GFloat64 1200),
     (''is_error'', GBool False), (''num_turns'', GFloat64 1),
     (''session_id'', GString ''s1'')]"
  note T = getInt_truncates_float64
     [of ?read _ _ "''success''" 1500 1200 False 1 "''s1''"]
  have a: "getInt ?read ''duration_ms'' = Some 1500"
    using T [of "''duration_ms''" fractionalDuration, THEN conjunct1]
    by (simp add: int_of_float64_ex2)
  have b: "getInt ?read ''duration_api_ms'' = Some 1200"
    using T [of "''duration_api_ms''" 1200, THEN conjunct1]
    by (simp add: int_of_float64_examples)
  have c: "getInt ?read ''num_turns'' = Some 1"
    using T [of "''num_turns''" 1, THEN conjunct1]
    by (simp add: int_of_float64_examples)
  have "ParseMessage ?read = Inr (ResultMessage
        \<lparr> Subtype = ''success'', DurationMS = 1500, DurationAPIMS = 1200,
          IsError = False, NumTurns = 1, SessionID = ''s1'',
          TotalCostUSD = None, Usage = None, Result = None \<rparr>)"
    using T [of "''duration_ms''" 0, THEN conjunct2, THEN conjunct2] a b c
    by (simp add: index_def)
  then show ?thesis
    unfolding ParseMessageFromJSON_def Option.bind.simps unmarshalMap_fractionalResultLine
    by (simp add: int_of_float64_ex1 int_of_float64_ex2 float64_examples)
qed

section \<open>Decoding a line in the client's pipeline\<close>

lemma forwardMessages_None:
  "forwardMessages None frames =
     concat (map (\<lambda>data. case ParseMessage (messageDataToMap data) of
                            Inl err \<Rightarrow> [] | Inr msg \<Rightarrow> [msg]) frames)"
  by (induction frames) (auto simp add: ctxDone_def tick_def split: sum.splits)

text \<open>
  Claim C2 says that every valid line of a recognized type with all required fields
  decodes, through \<^verbatim>\<open>json.Unmarshal\<close> into \<^verbatim>\<open>MessageData\<close>, \<^verbatim>\<open>messageDataToMap\<close> and
  \<^verbatim>\<open>ParseMessage\<close>, into a message with the fields unchanged.  The two lines of the
  specification's scenarios do (\<open>decode_specResultLine\<close>, \<open>decode_specAssistantLine\<close>).
  The result line with \<^verbatim>\<open>"duration_api_ms":0\<close> does not: \<^verbatim>\<open>messageDataToMap\<close> writes an
  integer field only when it is positive, \<^verbatim>\<open>ParseMessage\<close> then misses the field, and
  the client's loop delivers nothing for the line.  \<^verbatim>\<open>ParseMessageFromJSON\<close> decodes
  the same line, with \<^verbatim>\<open>DurationAPIMS\<close> 0.
\<close>

theorem zero_valued_result_field_is_dropped:
  "decodeLine zeroApiDurationLine =
     Some (Inl (Errorf ''missing 'duration_api_ms' field in result message''))
   \<and> map_option (\<lambda>data. forwardMessages None [data]) (unmarshalMessageData zeroApiDurationLine)
       = Some []
   \<and> ParseMessageFromJSON (Some zeroApiDurationLine) =
       Inr (ResultMessage (specResultMessage\<lparr>DurationAPIMS := 0\<rparr>))"
proof -
  have j: "ParseMessageFromJSON (Some zeroApiDurationLine) =
       Inr (ResultMessage (specResultMessage\<lparr>DurationAPIMS := 0\<rparr>))"
    unfolding ParseMessageFromJSON_def Option.bind.simps unmarshalMap_zeroApiDurationLine
    by (simp add: parse_defs int_of_float64_examples specResultMessage_def)
  from j show ?thesis
    by (simp add: decodeLine_def unmarshal_zeroApiDurationLine parse_zeroApiDurationFrame
        ctxDone_def)
qed

lemma readLine_overflow:
  assumes "TrimSpace text \<noteq> []" "length (jsonBuffer r @ TrimSpace text) > maxBufferSize"
    "\<not> blocked r"
  shows "errChan r = [] \<longrightarrow>
           readLine parse r text = r\<lparr>jsonBuffer := [], errChan := [overflowError]\<rparr>"
    and "errChan r \<noteq> [] \<longrightarrow>
           readLine parse r text = r\<lparr>jsonBuffer := jsonBuffer r @ TrimSpace text, blocked := True\<rparr>"
  using assms
  by (auto simp add: readLine_def Let_def sendErr_def overflowError_def)

lemma readLine_accumulates:
  assumes "TrimSpace text \<noteq> []" "length (jsonBuffer r @ TrimSpace text) \<le> maxBufferSize"
    "jsonUnmarshal parse (jsonBuffer r @ TrimSpace text) = None"
  shows "readLine parse r text = r\<lparr>jsonBuffer := jsonBuffer r @ TrimSpace text\<rparr>"
  using assms by (simp add: readLine_def Let_def)

lemma readLine_delivers:
  assumes "TrimSpace text \<noteq> []" "length (jsonBuffer r @ TrimSpace text) \<le> maxBufferSize"
    "jsonUnmarshal parse (jsonBuffer r @ TrimSpace text) = Some data"
    "mdType data \<noteq> ''control_response''"
  shows "readLine parse r text = r\<lparr>jsonBuffer := [], msgChan := msgChan r @ [data]\<rparr>"
  using assms by (simp add: readLine_def Let_def)

lemma unknown_type_frame_is_skipped:
  "forwardMessages None [specResultFrame, unknownTypeFrame, specAssistantFrame]
     = [ResultMessage specResultMessage, AssistantMessage [TextBlock ''hi''] ''m1'']"
  by (simp add: parse_specResultFrame parse_unknownTypeFrame parse_specAssistantFrame
      ctxDone_def tick_def)

lemma readLine_userString:
  "readLine twoLines newReader userStringLine = newReader\<lparr>jsonBuffer := userStringLine\<rparr>"
  using readLine_accumulates [of userStringLine newReader twoLines]
  by (simp add: userStringLine_facts newReader_def maxBufferSize_def jsonUnmarshal_def
      twoLines_facts unmarshal_userStringJson)

lemma readLine_init_after_userString:
  "readLine twoLines (newReader\<lparr>jsonBuffer := userStringLine\<rparr>) initLine
     = newReader\<lparr>jsonBuffer := userStringLine @ initLine\<rparr>"
  using readLine_accumulates [of initLine "newReader\<lparr>jsonBuffer := userStringLine\<rparr>" twoLines]
  by (simp add: userStringLine_facts initLine_facts newReader_def maxBufferSize_def
      jsonUnmarshal_def twoLines_facts)

lemma readLine_init_alone:
  "readLine twoLines newReader initLine = newReader\<lparr>msgChan := [initFrame]\<rparr>"
  using readLine_delivers [of initLine newReader twoLines initFrame]
  by (simp add: initLine_facts newReader_def maxBufferSize_def jsonUnmarshal_def twoLines_facts
      unmarshal_initJson initFrame_def)

lemma scan_two_lines:
  "scanLines [userStringLine, initLine] = ([userStringLine, initLine], None)"
  "scanLines [initLine] = ([initLine], None)"
  by (simp_all add: userStringLine_facts initLine_facts maxBufferSize_def)

text \<open>
  Claim C4 says that an envelope that lacks a required field, or whose type is not
  recognized, gives a decode error, and that the loop goes on and decodes the next
  valid line.  \<^verbatim>\<open>ParseMessage\<close> does reject a frame of unknown type, and the client's
  loop skips a frame that \<^verbatim>\<open>ParseMessage\<close> rejects and delivers the frames around it
  (\<open>forwardMessages_None\<close>, \<open>unknown_type_frame_is_skipped\<close>).  Two lines with a
  required field missing are not handled so.  A result line without \<^verbatim>\<open>is_error\<close> is
  not rejected: the field of \<^verbatim>\<open>MessageData\<close> is a \<^verbatim>\<open>bool\<close>, \<^verbatim>\<open>messageDataToMap\<close>
  always writes it, and the client delivers a result message with \<^verbatim>\<open>IsError\<close> false,
  where \<^verbatim>\<open>ParseMessageFromJSON\<close> rejects the same line.  And a user line whose
  \<^verbatim>\<open>message\<close> is a string makes \<^verbatim>\<open>json.Unmarshal\<close> fail in \<^verbatim>\<open>readMessages\<close>: no error
  is reported, the text stays in \<^verbatim>\<open>jsonBuffer\<close>, and the well-formed line after it,
  which is delivered when it comes alone, is appended to that text and never decoded.
\<close>

theorem result_without_is_error_is_delivered:
  "(\<exists>members. noIsErrorLine = JObject members \<and> map_of members ''is_error'' = None)
   \<and> decodeLine noIsErrorLine =
       Some (Inr (ResultMessage (specResultMessage\<lparr>TotalCostUSD := None\<rparr>)))
   \<and> map_option (\<lambda>data. forwardMessages None [data]) (unmarshalMessageData noIsErrorLine)
       = Some [ResultMessage (specResultMessage\<lparr>TotalCostUSD := None\<rparr>)]
   \<and> IsError (specResultMessage\<lparr>TotalCostUSD := None\<rparr>) = False
   \<and> ParseMessageFromJSON (Some noIsErrorLine)
       = Inl (Errorf ''missing 'is_error' field in result message'')
   \<and> readMessages twoLines [initLine] None
       = \<lparr> jsonBuffer = [], msgChan = [initFrame], errChan = [], blocked = False,
           closed = True \<rparr>
   \<and> readMessages twoLines [userStringLine, initLine] None
       = \<lparr> jsonBuffer = userStringLine @ initLine, msgChan = [], errChan = [],
           blocked = False, closed = True \<rparr>"
proof -
  have a: "decodeLine noIsErrorLine =
       Some (Inr (ResultMessage (specResultMessage\<lparr>TotalCostUSD := None\<rparr>)))
   \<and> map_option (\<lambda>data. forwardMessages None [data]) (unmarshalMessageData noIsErrorLine)
       = Some [ResultMessage (specResultMessage\<lparr>TotalCostUSD := None\<rparr>)]"
    by (simp add: decodeLine_def unmarshal_noIsErrorLine parse_noIsErrorFrame ctxDone_def
        tick_def)
  have b: "ParseMessageFromJSON (Some noIsErrorLine)
       = Inl (Errorf ''missing 'is_error' field in result message'')"
    unfolding ParseMessageFromJSON_def Option.bind.simps unmarshalMap_noIsErrorLine
    by (simp add: parse_defs int_of_float64_examples)
  have c: "\<exists>members. noIsErrorLine = JObject members \<and> map_of members ''is_error'' = None"
    by (simp add: noIsErrorLine_def)
  have "readLines twoLines newReader [initLine] = newReader\<lparr>msgChan := [initFrame]\<rparr>"
    by (simp add: readLine_init_alone) (simp add: newReader_def)
  then have d: "readMessages twoLines [initLine] None
       = \<lparr> jsonBuffer = [], msgChan = [initFrame], errChan = [], blocked = False,
           closed = True \<rparr>"
    unfolding readMessages_def scan_two_lines by (simp add: newReader_def)
  have "readLines twoLines newReader [userStringLine, initLine]
      = newReader\<lparr>jsonBuffer := userStringLine @ initLine\<rparr>"
    by (simp add: readLine_userString readLine_init_after_userString) (simp add: newReader_def)
  then have e: "readMessages twoLines [userStringLine, initLine] None
       = \<lparr> jsonBuffer = userStringLine @ initLine, msgChan = [], errChan = [],
           blocked = False, closed = True \<rparr>"
    unfolding readMessages_def scan_two_lines by (simp add: newReader_def)
  from a b c d e show ?thesis by (simp add: specResultMessage_def)
qed

section \<open>The reader and the error channel\<close>

lemma readLine_big_first:
  "readLine (parseOnly initLine initJson) newReader bigLine = newReader\<lparr>jsonBuffer := bigLine\<rparr>"
  using readLine_accumulates [of bigLine newReader "parseOnly initLine initJson"]
  by (simp add: bigLine_facts newReader_def maxBufferSize_def jsonUnmarshal_def parseOnly_big)

lemma readLine_big_second:
  "readLine (parseOnly initLine initJson) (newReader\<lparr>jsonBuffer := bigLine\<rparr>) bigLine
     = newReader\<lparr>errChan := [overflowError]\<rparr>"
  using readLine_overflow(1) [of bigLine "newReader\<lparr>jsonBuffer := bigLine\<rparr>"
      "parseOnly initLine initJson"]
  by (simp add: bigLine_facts newReader_def maxBufferSize_def)

lemma readLine_big_third:
  "readLine (parseOnly initLine initJson) (newReader\<lparr>errChan := [overflowError]\<rparr>) bigLine
     = newReader\<lparr>jsonBuffer := bigLine, errChan := [overflowError]\<rparr>"
  using readLine_accumulates [of bigLine "newReader\<lparr>errChan := [overflowError]\<rparr>"
      "parseOnly initLine initJson"]
  by (simp add: bigLine_facts newReader_def maxBufferSize_def jsonUnmarshal_def parseOnly_big)

lemma readLine_big_fourth:
  "readLine (parseOnly initLine initJson)
      (newReader\<lparr>jsonBuffer := bigLine, errChan := [overflowError]\<rparr>) bigLine
     = newReader\<lparr>jsonBuffer := bigLine @ bigLine, errChan := [overflowError], blocked := True\<rparr>"
  using readLine_overflow(2) [of bigLine
      "newReader\<lparr>jsonBuffer := bigLine, errChan := [overflowError]\<rparr>"
      "parseOnly initLine initJson"]
  by (simp add: bigLine_facts newReader_def maxBufferSize_def)

lemma readLine_init_after_overflow:
  "readLine (parseOnly initLine initJson) (newReader\<lparr>errChan := [overflowError]\<rparr>) initLine
     = newReader\<lparr>msgChan := [initFrame], errChan := [overflowError]\<rparr>"
  using readLine_delivers [of initLine "newReader\<lparr>errChan := [overflowError]\<rparr>"
      "parseOnly initLine initJson" initFrame]
  by (simp add: initLine_facts newReader_def maxBufferSize_def jsonUnmarshal_def parseOnly_big
      unmarshal_initJson initFrame_def)

lemma scan_lines:
  "scanLines [bigLine, bigLine, bigLine, bigLine, initLine]
     = ([bigLine, bigLine, bigLine, bigLine, initLine], None)"
  "scanLines [bigLine, bigLine, initLine] = ([bigLine, bigLine, initLine], None)"
  by (simp_all add: bigLine_facts initLine_facts maxBufferSize_def)

lemma first_overflow_recovers:
  "readMessages (parseOnly initLine initJson) [bigLine, bigLine, initLine] None
     = \<lparr> jsonBuffer = [], msgChan = [initFrame], errChan = [overflowError],
         blocked = False, closed = True \<rparr>"
proof -
  have "readLines (parseOnly initLine initJson) newReader [bigLine, bigLine, initLine]
      = newReader\<lparr>msgChan := [initFrame], errChan := [overflowError]\<rparr>"
    by (simp add: readLine_big_first readLine_big_second readLine_init_after_overflow) (simp add: newReader_def)
  then show ?thesis
    unfolding readMessages_def scan_lines by (simp add: newReader_def)
qed

text \<open>
  Claim C3 says that whenever the buffer exceeds the maximum after a line is appended,
  one overflow error is put on the error channel and the buffer is reset, so that a
  well-formed line after it is still delivered.  That is what happens at the first
  overflow (\<open>first_overflow_recovers\<close>).  At the second one the error channel, of
  capacity 1 and never received from, is full: the send does not return, the buffer
  is not reset, the well-formed line that follows is never read and \<^verbatim>\<open>msgChan\<close> is
  never closed.
\<close>

theorem second_overflow_blocks_reader:
  "readMessages (parseOnly initLine initJson) [bigLine, bigLine, bigLine, bigLine, initLine] None
     = \<lparr> jsonBuffer = bigLine @ bigLine, msgChan = [], errChan = [overflowError],
         blocked = True, closed = False \<rparr>"
proof -
  have "readLines (parseOnly initLine initJson) newReader
          [bigLine, bigLine, bigLine, bigLine, initLine]
      = newReader\<lparr>jsonBuffer := bigLine @ bigLine, errChan := [overflowError],
          blocked := True\<rparr>"
    by (simp add: readLine_big_first readLine_big_second readLine_big_third readLine_big_fourth) (simp add: newReader_def)
  then show ?thesis
    unfolding readMessages_def scan_lines by (simp add: newReader_def)
qed

section \<open>The client\<close>

lemma receiveUntilResult_None:
  "receiveUntilResult None msgs =
     (takeWhile (\<lambda>m. \<not> isResult m) msgs @ take 1 (dropWhile (\<lambda>m. \<not> isResult m) msgs),
      drop 1 (dropWhile (\<lambda>m. \<not> isResult m) msgs))"
  by (induction msgs) (auto simp add: ctxDone_def tick_def)

lemma receiveResponse_delivers:
  "fst (receiveResponse c c' frames) = fst (receiveUntilResult c' (forwardMessages c frames))"
  by (induction c c' frames rule: receiveResponse.induct)
     (auto split: sum.splits prod.splits)

lemma receiveResponse_through_first_result:
  "fst (receiveResponse None None frames) =
     takeWhile (\<lambda>m. \<not> isResult m) (forwardMessages None frames) @
     take 1 (dropWhile (\<lambda>m. \<not> isResult m) (forwardMessages None frames))"
  by (simp add: receiveResponse_delivers receiveUntilResult_None)

lemma ReceiveResponse_connected:
  "Client_ReceiveResponse cx cx' connectedClient dataChan =
     Return (Inr (receiveResponse cx cx' dataChan))"
  by (simp add: Client_ReceiveResponse_def Client_ReceiveMessages_def connectedClient_eq
      connectedTransport_def ReceiveMessages_def)

text \<open>
  Claim C1 says that \<^verbatim>\<open>ReceiveResponse\<close> forwards the messages up to and including the
  first result message and then stops, reading no further message.  What it delivers
  is indeed the messages up to and including the first result message that reaches
  its loop (\<open>receiveResponse_through_first_result\<close>).  But the goroutine started by
  \<^verbatim>\<open>ReceiveMessages\<close> is not stopped when the loop returns.  Of the frames system
  (\<^verbatim>\<open>info\<close>), assistant (\<^verbatim>\<open>hi\<close>) and result, followed by the three frames of a next
  turn, the three messages of the first turn are delivered; the first frame of the
  next turn is taken off the transport's channel as well and stays, undelivered, with
  that goroutine; and a second call of \<^verbatim>\<open>ReceiveResponse\<close> delivers the next turn
  without its first message.  Moreover a result frame whose API duration is zero is
  dropped before it reaches the loop (see claim C2): the response does not end at it,
  and the call delivers the messages of the next turn too.
\<close>

theorem ReceiveResponse_takes_the_frame_after_the_result:
  "Client_ReceiveResponse None None connectedClient
      [infoFrame, specAssistantFrame, specResultFrame,
       initFrame, specAssistantFrame, specResultFrame]
     = Return (Inr
         ([SystemMessage ''info''
             [(''type'', GString ''system''), (''subtype'', GString ''info''),
              (''is_error'', GBool False)],
           AssistantMessage [TextBlock ''hi''] ''m1'',
           ResultMessage specResultMessage],
          Some (SystemMessage ''init''
             [(''type'', GString ''system''), (''subtype'', GString ''init''),
              (''is_error'', GBool False)]),
          [specAssistantFrame, specResultFrame]))
   \<and> Client_ReceiveResponse None None connectedClient [specAssistantFrame, specResultFrame]
     = Return (Inr
         ([AssistantMessage [TextBlock ''hi''] ''m1'', ResultMessage specResultMessage],
          None, []))
   \<and> Client_ReceiveResponse None None connectedClient
      [infoFrame, specAssistantFrame, specResultFrame\<lparr>mdDurationAPIMS := 0\<rparr>,
       initFrame, specAssistantFrame, specResultFrame]
     = Return (Inr
         ([SystemMessage ''info''
             [(''type'', GString ''system''), (''subtype'', GString ''info''),
              (''is_error'', GBool False)],
           AssistantMessage [TextBlock ''hi''] ''m1'',
           SystemMessage ''init''
             [(''type'', GString ''system''), (''subtype'', GString ''init''),
              (''is_error'', GBool False)],
           AssistantMessage [TextBlock ''hi''] ''m1'',
           ResultMessage specResultMessage],
          None, []))"
  unfolding ReceiveResponse_connected
  by (simp add: parse_infoFrame parse_initFrame parse_specAssistantFrame parse_specResultFrame
      parse_zeroApiDurationFrame ctxDone_def tick_def)

lemma Disconnect_once:
  assumes "Disconnect t = (err1, t1, done1)" and "Disconnect t1 = (err2, t2, done2)"
  shows "err1 = None \<and> err2 = None \<and> done2 = [] \<and> t2 = t1 \<and> distinct (done1 @ done2) \<and>
     set (done1 @ done2) \<subseteq> {StdinClose, ProcessKill, ProcessWait, StderrClose, StderrRemove}"
proof (cases "t_connected t")
  case False
  with assms show ?thesis by (simp add: Disconnect_def)
next
  case True
  with assms(1) have t1: "\<not> t_connected t1" and e1: "err1 = None"
    and d: "done1 = (if stdin t then [StdinClose] else [])
                   @ (if cmd t \<and> cmdProcess t then [ProcessKill, ProcessWait] else [])
                   @ (if stderrFile t then [StderrClose, StderrRemove] else [])"
    by (auto simp add: Disconnect_def Let_def split: if_splits)
  from t1 assms(2) have "err2 = None" "done2 = []" "t2 = t1" by (simp_all add: Disconnect_def)
  with e1 d show ?thesis by auto
qed

text \<open>
  Claim C5.  Two calls of \<^verbatim>\<open>Disconnect\<close> in a row, on the client and on the transport,
  from any state: both return no error, the second does nothing and leaves the state
  of the first, and each of the cleanup effects (closing stdin, killing and reaping
  the process, closing and removing the stderr file) happens at most once.
\<close>

theorem disconnect_twice_cleans_up_once:
  assumes "Client_Disconnect c = (err1, c1, done1)"
    and "Client_Disconnect c1 = (err2, c2, done2)"
    and "Disconnect t = (terr1, t1, tdone1)"
    and "Disconnect t1 = (terr2, t2, tdone2)"
  shows "err1 = None \<and> err2 = None \<and> done2 = [] \<and> c2 = c1
     \<and> distinct (done1 @ done2)
     \<and> set (done1 @ done2) \<subseteq> {StdinClose, ProcessKill, ProcessWait, StderrClose, StderrRemove}
     \<and> terr1 = None \<and> terr2 = None \<and> tdone2 = [] \<and> t2 = t1
     \<and> distinct (tdone1 @ tdone2)
     \<and> set (tdone1 @ tdone2) \<subseteq> {StdinClose, ProcessKill, ProcessWait, StderrClose, StderrRemove}"
proof -
  have c: "err1 = None \<and> err2 = None \<and> done2 = [] \<and> c2 = c1
     \<and> distinct (done1 @ done2)
     \<and> set (done1 @ done2) \<subseteq> {StdinClose, ProcessKill, ProcessWait, StderrClose, StderrRemove}"
  proof (cases "transport c")
    case None
    with assms(1,2) show ?thesis by (auto simp add: Client_Disconnect_def)
  next
    case (Some tr)
    obtain e tr1 es where d: "Disconnect tr = (e, tr1, es)" by (cases "Disconnect tr") auto
    obtain e2 tr2 es2 where d2: "Disconnect tr1 = (e2, tr2, es2)"
      by (cases "Disconnect tr1") auto
    from Disconnect_once [OF d d2] have "e = None" "distinct es"
      "set es \<subseteq> {StdinClose, ProcessKill, ProcessWait, StderrClose, StderrRemove}"
      by simp_all
    with Some d assms(1,2) show ?thesis by (auto simp add: Client_Disconnect_def)
  qed
  from c Disconnect_once [OF assms(3,4)] show ?thesis by simp
qed

theorem disconnect_twice_cleans_up_once_witness:
  "Client_Disconnect connectedClient
     = (None, NewClient, [StdinClose, ProcessKill, ProcessWait, StderrClose, StderrRemove])
   \<and> Client_Disconnect NewClient = (None, NewClient, [])
   \<and> Disconnect connectedTransport
     = (None, connectedTransport\<lparr>stdin := False, stderrFile := False, t_connected := False\<rparr>,
        [StdinClose, ProcessKill, ProcessWait, StderrClose, StderrRemove])
   \<and> Disconnect (connectedTransport\<lparr>stdin := False, stderrFile := False, t_connected := False\<rparr>)
     = (None, connectedTransport\<lparr>stdin := False, stderrFile := False, t_connected := False\<rparr>, [])"
proof -
  have a: "Client_Disconnect connectedClient
     = (None, NewClient, [StdinClose, ProcessKill, ProcessWait, StderrClose, StderrRemove])"
    by (simp add: connectedClient_eq connectedTransport_def Client_Disconnect_def
        Disconnect_def NewClient_def)
  have b: "Client_Disconnect NewClient = (None, NewClient, [])"
    by (simp add: Client_Disconnect_def NewClient_def)
  have c: "Disconnect connectedTransport
     = (None, connectedTransport\<lparr>stdin := False, stderrFile := False, t_connected := False\<rparr>,
        [StdinClose, ProcessKill, ProcessWait, StderrClose, StderrRemove])"
    by (simp add: connectedTransport_def Disconnect_def)
  have d: "Disconnect (connectedTransport\<lparr>stdin := False, stderrFile := False, t_connected := False\<rparr>)
     = (None, connectedTransport\<lparr>stdin := False, stderrFile := False, t_connected := False\<rparr>, [])"
    by (simp add: connectedTransport_def Disconnect_def)
  from disconnect_twice_cleans_up_once [OF a b c d] a b c d show ?thesis by simp
qed


lemma query_with_malformed_map_panics:
  "Client_Query okStdio oneShotClient (PSlice [[(''message'', GString ''hello'')]]) ''s1''
     = (Panic, [])"
  by (simp add: oneShotClient_eq Client_Query_def mapToMessageData_def index_def Let_def)



text \<open>
  Claim C7.  \<^verbatim>\<open>Client.Interrupt\<close> returns the connection error on a client that is not
  connected, and on a connected client whose transport does not stream it returns the
  error \<^verbatim>\<open>interrupt not implemented for subprocess transport\<close>, which is what the
  transport's \<^verbatim>\<open>Interrupt\<close> returns.
\<close>

theorem interrupt_fails_without_streaming:
  "(\<not> c_connected c \<longrightarrow>
      Client_Interrupt c =
        Return (Some (CLIConnectionError ''Not connected. Call Connect() first.'')))
   \<and> (c_connected c \<and> transport c = Some t \<and> \<not> isStreaming t \<longrightarrow>
      Client_Interrupt c =
        Return (Some (Errorf ''interrupt not implemented for subprocess transport'')))
   \<and> (\<not> isStreaming t \<longrightarrow>
      Interrupt t = Some (Errorf ''interrupt not implemented for subprocess transport''))"
  by (simp add: Client_Interrupt_def Interrupt_def)

theorem interrupt_fails_without_streaming_witness:
  "\<not> c_connected NewClient
   \<and> Client_Interrupt NewClient =
        Return (Some (CLIConnectionError ''Not connected. Call Connect() first.''))
   \<and> c_connected oneShotClient \<and> transport oneShotClient = Some oneShotTransport
   \<and> \<not> isStreaming oneShotTransport
   \<and> Client_Interrupt oneShotClient =
        Return (Some (Errorf ''interrupt not implemented for subprocess transport''))"
proof -
  have a: "\<not> c_connected NewClient" by (simp add: NewClient_def)
  have b: "c_connected oneShotClient \<and> transport oneShotClient = Some oneShotTransport \<and>
      \<not> isStreaming oneShotTransport"
    by (simp add: oneShotClient_eq oneShotTransport_def)
  from interrupt_fails_without_streaming [of NewClient oneShotTransport] a
  have 1: "Client_Interrupt NewClient =
        Return (Some (CLIConnectionError ''Not connected. Call Connect() first.''))"
    by simp
  from interrupt_fails_without_streaming [of oneShotClient oneShotTransport] b
  have 2: "Client_Interrupt oneShotClient =
        Return (Some (Errorf ''interrupt not implemented for subprocess transport''))"
    by simp
  from a b 1 2 show ?thesis by simp
qed

section \<open>One-shot queries\<close>

lemma collect_no_error:
  "\<forall>m \<in> set ms. errorText m = None \<Longrightarrow> collect acc ms = (acc @ ms, None)"
  by (induction ms arbitrary: acc)
     (auto simp add: errorText_def Let_def split: Message.splits if_splits option.splits)

lemma collect_first_error:
  "\<forall>m \<in> set pre. errorText m = None \<Longrightarrow> errorText e = Some s \<Longrightarrow>
   collect acc (pre @ e # post) = (acc @ pre @ [e], Some (CLIConnectionError s))"
  by (induction pre arbitrary: acc)
     (auto simp add: errorText_def Let_def split: Message.splits if_splits option.splits)

lemma ParseMessage_System:
  assumes "ParseMessage d = Inr (SystemMessage subtype data)"
  shows "data = d"
proof (cases "index d ''type''")
  case (GString ty)
  consider "ty = ''user''" | "ty = ''assistant''" | "ty = ''system''" | "ty = ''result''"
    | "ty \<noteq> ''user''" "ty \<noteq> ''assistant''" "ty \<noteq> ''system''" "ty \<noteq> ''result''"
    by blast
  then show ?thesis
  proof cases
    case 1
    with assms GString show ?thesis
      by (simp add: ParseMessage_def parseUserMessage_def Let_def
          split: option.splits sum.splits)
  next
    case 2
    with assms GString show ?thesis
      by (simp add: ParseMessage_def parseAssistantMessage_def
          split: option.splits sum.splits)
  next
    case 3
    with assms GString show ?thesis
      by (simp add: ParseMessage_def parseSystemMessage_def split: option.splits)
  next
    case 4
    with assms GString show ?thesis
      by (simp add: ParseMessage_def parseResultMessage_def split: option.splits)
  next
    case 5
    with assms GString show ?thesis by (simp add: ParseMessage_def)
  qed
qed (use assms in \<open>simp_all add: ParseMessage_def\<close>)

lemma decoded_frame_has_no_errorText:
  assumes "ParseMessage (messageDataToMap frame) = Inr msg"
  shows "errorText msg = None"
proof (cases msg)
  case (SystemMessage subtype data)
  with assms ParseMessage_System have "data = messageDataToMap frame" by blast
  with SystemMessage show ?thesis
    by (simp add: errorText_def index_def map_of_messageDataToMap)
qed (simp_all add: errorText_def)

lemma forwardMessages_no_errorText:
  "\<forall>m \<in> set (forwardMessages cx frames). errorText m = None"
proof (induction frames arbitrary: cx)
  case Nil
  show ?case by simp
next
  case (Cons frame frames)
  show ?case
  proof (cases "ParseMessage (messageDataToMap frame)")
    case (Inl e)
    with Cons show ?thesis by simp
  next
    case (Inr msg)
    with decoded_frame_has_no_errorText have "errorText msg = None" by blast
    with Inr Cons show ?thesis by simp
  qed
qed

lemma Connect_ok_connected: "Connect env t = (None, t') \<Longrightarrow> t_connected t'"
  by (auto simp add: Connect_def Let_def split: if_splits option.splits)

lemma QuerySync_connected:
  assumes "NewSubprocessCLITransport env p [] True = Inr t" "Connect env t = (None, t')"
  shows "QuerySync env cx p dataChan = (forwardMessages cx dataChan, None)"
proof -
  from assms(2) have "t_connected t'" by (rule Connect_ok_connected)
  with assms have "Query env cx p dataChan = forwardMessages cx dataChan"
    by (simp add: Query_def ReceiveMessages_def)
  with collect_no_error [OF forwardMessages_no_errorText, of "[]" cx dataChan]
  show ?thesis by (simp add: QuerySync_def)
qed

text \<open>
  Claim C8, as stated, fails for a system message of subtype \<^verbatim>\<open>error\<close> that comes from
  the child's output: its data is the rebuilt envelope, which has no \<^verbatim>\<open>error\<close> entry,
  and \<^verbatim>\<open>QuerySync\<close> returns it with the other messages and no error.
\<close>

theorem QuerySync_system_error_without_text_counterexample:
  "SystemMessage ''error''
       [(''type'', GString ''system''), (''subtype'', GString ''error''),
        (''is_error'', GBool False)]
     \<in> set (Query okSpawn None (PString ''hi'') [systemErrorFrame])
   \<and> QuerySync okSpawn None (PString ''hi'') [systemErrorFrame] =
       ([SystemMessage ''error''
           [(''type'', GString ''system''), (''subtype'', GString ''error''),
            (''is_error'', GBool False)]], None)"
  by (simp add: QuerySync_def Query_def NewSubprocessCLITransport_def okSpawn_def Connect_def
      ReceiveMessages_def Let_def systemErrorFrame_def zeroMessageData_def
      messageDataToMap_def setIf_def setNotNil_def ParseMessage_def parseSystemMessage_def
      index_def ctxDone_def tick_def)

text \<open>
  Claim C8, amended.  \<^verbatim>\<open>QuerySync\<close> returns the messages of \<^verbatim>\<open>Query\<close> in order, with no
  error when none of them is a system message of subtype \<^verbatim>\<open>error\<close> with a string
  under \<^verbatim>\<open>error\<close>.  At the first such message it returns the messages up to and
  including it, with a connection error that carries the string.  \<^verbatim>\<open>Query\<close> sends such
  a message when the transport cannot be made or connected; once the transport is
  connected no message it forwards is one, and \<^verbatim>\<open>QuerySync\<close> returns them all with no
  error.
\<close>

theorem QuerySync_returns_error_text:
  "((\<forall>m \<in> set (Query env cx p dataChan). errorText m = None) \<longrightarrow>
      QuerySync env cx p dataChan = (Query env cx p dataChan, None))
   \<and> (Query env cx p dataChan = pre @ e # post \<and> (\<forall>m \<in> set pre. errorText m = None) \<and>
      errorText e = Some s \<longrightarrow>
      QuerySync env cx p dataChan = (pre @ [e], Some (CLIConnectionError s)))
   \<and> (NewSubprocessCLITransport env p [] True = Inl err \<longrightarrow>
      QuerySync env cx p dataChan = ([errorMessage err], Some (CLIConnectionError (Error err))))
   \<and> (NewSubprocessCLITransport env p [] True = Inr t \<and> Connect env t = (Some err, t') \<longrightarrow>
      QuerySync env cx p dataChan = ([errorMessage err], Some (CLIConnectionError (Error err))))
   \<and> (NewSubprocessCLITransport env p [] True = Inr t \<and> Connect env t = (None, t') \<longrightarrow>
      QuerySync env cx p dataChan = (forwardMessages cx dataChan, None))"
  using collect_no_error [of "Query env cx p dataChan" "[]"]
        collect_first_error [of pre e s "[]" post]
        QuerySync_connected [of env p t t' cx dataChan]
  by (auto simp add: QuerySync_def Query_def errorMessage_def index_def)

theorem QuerySync_returns_error_text_witness:
  "NewSubprocessCLITransport noCLISpawn (PString ''hi'') [] True
     = Inl (Errorf ''Claude Code not found'')
   \<and> Query noCLISpawn None (PString ''hi'') [] = [] @ errorMessage (Errorf ''Claude Code not found'') # []
   \<and> errorText (errorMessage (Errorf ''Claude Code not found'')) = Some ''Claude Code not found''
   \<and> QuerySync noCLISpawn None (PString ''hi'') []
     = ([errorMessage (Errorf ''Claude Code not found'')],
        Some (CLIConnectionError ''Claude Code not found''))
   \<and> QuerySync okSpawn None (PString ''hi'') [specAssistantFrame, specResultFrame]
     = ([AssistantMessage [TextBlock ''hi''] ''m1'', ResultMessage specResultMessage], None)"
proof -
  have a: "NewSubprocessCLITransport noCLISpawn (PString ''hi'') [] True
     = Inl (Errorf ''Claude Code not found'')"
    by (simp add: NewSubprocessCLITransport_def noCLISpawn_def okSpawn_def)
  then have q: "Query noCLISpawn None (PString ''hi'') []
      = [] @ errorMessage (Errorf ''Claude Code not found'') # []"
    by (simp add: Query_def)
  have t: "errorText (errorMessage (Errorf ''Claude Code not found'')) = Some ''Claude Code not found''"
    by (simp add: errorText_def errorMessage_def index_def)
  have b: "NewSubprocessCLITransport okSpawn (PString ''hi'') [] True
     = Inr \<lparr> isStreaming = False, closeStdinAfterPrompt = True, stdin = False,
                 cmd = False, cmdProcess = False, stderrFile = False, t_connected = False \<rparr>"
    by (simp add: NewSubprocessCLITransport_def okSpawn_def)
  have c: "Connect okSpawn \<lparr> isStreaming = False, closeStdinAfterPrompt = True, stdin = False,
                 cmd = False, cmdProcess = False, stderrFile = False, t_connected = False \<rparr>
     = (None, \<lparr> isStreaming = False, closeStdinAfterPrompt = True, stdin = False,
                 cmd = True, cmdProcess = True, stderrFile = True, t_connected = True \<rparr>)"
    by (simp add: Connect_def okSpawn_def)
  have f: "forwardMessages None [specAssistantFrame, specResultFrame]
     = [AssistantMessage [TextBlock ''hi''] ''m1'', ResultMessage specResultMessage]"
    using decode_specAssistantLine decode_specResultLine
    by (simp add: decodeLine_def unmarshal_specAssistantLine unmarshal_specResultLine
        ctxDone_def tick_def)
  note T = QuerySync_returns_error_text
  from T [of noCLISpawn None "PString ''hi''" "[]" "[]"
            "errorMessage (Errorf ''Claude Code not found'')" "[]" "''Claude Code not found''"] q t
  have 1: "QuerySync noCLISpawn None (PString ''hi'') []
     = ([errorMessage (Errorf ''Claude Code not found'')],
        Some (CLIConnectionError ''Claude Code not found''))"
    by simp
  from T [of okSpawn None "PString ''hi''" "[specAssistantFrame, specResultFrame]",
            THEN conjunct2, THEN conjunct2, THEN conjunct2, THEN conjunct2] b c f
  have 2: "QuerySync okSpawn None (PString ''hi'') [specAssistantFrame, specResultFrame]
     = ([AssistantMessage [TextBlock ''hi''] ''m1'', ResultMessage specResultMessage], None)"
    by simp
  from a q t 1 2 show ?thesis by simp
qed

end
